theory Spec2Isabelle
  imports Complex_Main "HOL-Library.AList"
begin

section \<open>Data model\<close>

text \<open>
  The enumerations of \<^verbatim>\<open>models/Alert.js\<close>: every \<^verbatim>\<open>enum\<close> of the schema is a
  datatype, with \<open>typeName\<close>, \<open>severityName\<close> and \<open>statusName\<close> giving the
  strings the JavaScript stores.
\<close>

datatype alert_type =
  Earthquake | Flood | Cyclone | Tsunami | Wildfire | Extreme_weather | Heatwave | Storm

datatype severity = Low | Medium | High | Critical

datatype status = Active | Monitoring | Resolved | Expired

datatype source = Usgs | Openweather | Ml_prediction | Manual | Noaa | Sensor

fun typeName :: "alert_type \<Rightarrow> string" where
  "typeName Earthquake = ''earthquake''"
| "typeName Flood = ''flood''"
| "typeName Cyclone = ''cyclone''"
| "typeName Tsunami = ''tsunami''"
| "typeName Wildfire = ''wildfire''"
| "typeName Extreme_weather = ''extreme_weather''"
| "typeName Heatwave = ''heatwave''"
| "typeName Storm = ''storm''"

fun severityName :: "severity \<Rightarrow> string" where
  "severityName Low = ''low''"
| "severityName Medium = ''medium''"
| "severityName High = ''high''"
| "severityName Critical = ''critical''"

fun statusName :: "status \<Rightarrow> string" where
  "statusName Active = ''active''"
| "statusName Monitoring = ''monitoring''"
| "statusName Resolved = ''resolved''"
| "statusName Expired = ''expired''"

text \<open>
  A JavaScript Number is modelled as a \<open>real\<close> and a key that may be absent as an
  \<open>option\<close>; NaN and the infinities are outside the model. Times are milliseconds
  since the epoch, as \<^verbatim>\<open>Date.now()\<close> gives them.
\<close>

text \<open>
  The location of a sensor record: the SensorData schema requires the coordinates, not
  the name, so the name is optional.
\<close>

record location =
  name :: "string option"
  latitude :: real
  longitude :: real

record readings =
  temperature :: "real option"
  humidity :: "real option"
  pressure :: "real option"
  windSpeed :: "real option"
  windDirection :: "real option"
  rainfall :: "real option"
  visibility :: "real option"
  magnitude :: "real option"
  depth :: "real option"
  waterLevel :: "real option"

text \<open>The enumerations of the SensorData schema.\<close>

datatype sensor_source = SUsgs | SOpenweather | SNoaa | SSensor | SSatellite

datatype sensor_type =
  SEarthquake | SWeather | SFlood | SSeismic | STemperature | SWind | SPrecipitation

datatype quality = Good | Moderate | Poor | Unknown

text \<open>
  A sensor record as the collectors build it. \<open>sd_createdAt\<close> is the timestamp of a
  saved SensorData document, \<open>None\<close> for a plain object that was never saved. The
  fields rawData and processedAt, which no function reads, are left out.
\<close>

record sensor_data =
  sd_source :: sensor_source
  sd_type :: sensor_type
  sd_location :: location
  sd_readings :: readings
  sd_quality :: quality
  sd_createdAt :: "int option"

record alert_location =
  al_name :: string
  al_latitude :: real
  al_longitude :: real
  al_radius :: real

record alert_data =
  ad_magnitude :: "real option"
  ad_depth :: "real option"
  ad_waterLevel :: "real option"
  ad_windSpeed :: "real option"
  ad_temperature :: "real option"
  ad_rainfall :: "real option"
  ad_pressure :: "real option"
  ad_humidity :: "real option"

text \<open>
  An Alert document. \<open>a_id\<close> stands for the ObjectId the store assigns, \<open>a_status\<close>
  starts at the schema default \<open>Active\<close>, \<open>a_createdAt\<close> is the timestamp the
  schema option \<^verbatim>\<open>timestamps: true\<close> sets when the document is saved. The paths
  that none of the functions below reads or writes (sourceEventId, predictions,
  affectedPopulation, notificationsSent, updatedAt) are left out.
\<close>

record alert =
  a_id :: nat
  a_title :: string
  a_type :: alert_type
  a_severity :: severity
  a_status :: status
  a_description :: string
  a_location :: alert_location
  a_data :: alert_data
  a_source :: source
  a_recommendations :: "string list"
  a_resolvedAt :: "int option"
  a_expiresAt :: "int option"
  a_createdAt :: int

definition noData :: alert_data where
  "noData = \<lparr> ad_magnitude = None, ad_depth = None, ad_waterLevel = None,
     ad_windSpeed = None, ad_temperature = None, ad_rainfall = None,
     ad_pressure = None, ad_humidity = None \<rparr>"

section \<open>Threshold tables\<close>

record tiers =
  low :: real
  medium :: real
  high :: real
  critical :: real

record temperature_tiers =
  heatwave :: real
  extreme :: real

record threshold_table =
  th_earthquake :: tiers
  th_windSpeed :: tiers
  th_rainfall :: tiers
  th_temperature :: temperature_tiers
  th_waterLevel :: tiers

text \<open>\<^verbatim>\<open>this.thresholds\<close>, as the constructor of AlertService sets it.\<close>

definition thresholds :: threshold_table where
  "thresholds = \<lparr>
     th_earthquake = \<lparr> low = 3.0, medium = 4.5, high = 6.0, critical = 7.0 \<rparr>,
     th_windSpeed = \<lparr> low = 40, medium = 70, high = 100, critical = 150 \<rparr>,
     th_rainfall = \<lparr> low = 30, medium = 60, high = 100, critical = 150 \<rparr>,
     th_temperature = \<lparr> heatwave = 42, extreme = 45 \<rparr>,
     th_waterLevel = \<lparr> low = 3, medium = 5, high = 8, critical = 12 \<rparr> \<rparr>"

section \<open>Number formatting\<close>

text \<open>
  \<^verbatim>\<open>Number.prototype.toFixed\<close> on a real: the sign, then the integer nearest to
  \<open>\<bar>x\<bar> * 10 ^ f\<close> (the larger one on a tie) written with \<open>f\<close> digits after the point.
  This is the result for a Number below \<open>10 ^ 21\<close> in absolute value, where JavaScript
  does not yet switch to the exponent notation; the rounding is the one of the real
  number, not of its binary representation.
\<close>

function showNat :: "nat \<Rightarrow> string" where
  "showNat n = (if n < 10 then [''0123456789'' ! n]
                else showNat (n div 10) @ [''0123456789'' ! (n mod 10)])"
  by pat_completeness auto
termination
  by (relation "measure id") auto

declare showNat.simps [simp del]

definition toFixed :: "nat \<Rightarrow> real \<Rightarrow> string" where
  "toFixed f x =
     (let s = (if x < 0 then ''-'' else '''');
          n = nat \<lfloor>\<bar>x\<bar> * 10 ^ f + 1 / 2\<rfloor>;
          m = showNat n
      in if f = 0 then s @ m
         else (let m' = replicate (f + 1 - length m) (CHR ''0'') @ m;
                   k = length m' - f
               in s @ take k m' @ ''.'' @ drop k m'))"

section \<open>Alert evaluation (AlertService)\<close>

text \<open>
  An optional Number is falsy in JavaScript when it is absent or \<open>0\<close>: the tests
  \<^verbatim>\<open>!x\<close> and \<^verbatim>\<open>x && ...\<close> below are the case on the option and the
  comparison with \<open>0\<close>.

  The Alert collection is the list of its documents in insertion order;
  \<^verbatim>\<open>Alert.findOne(q)\<close> is \<open>find q\<close>. The functions take the value of
  \<^verbatim>\<open>Date.now()\<close> as \<open>now\<close> and return the new collection with either the value
  the JavaScript returns (\<open>Inr None\<close> for \<^verbatim>\<open>null\<close>) or the error it throws. The
  store itself is taken to be reachable: the only throw modelled is the one of the
  schema validation.
\<close>

datatype eval_error = ValidationError

text \<open>
  \<^verbatim>\<open>alert.save()\<close> runs the validators of the Alert schema and throws when one
  fails, before anything is written. In the documents built below the title, the
  type, the severity, the description and the coordinates are always present, so two
  validators decide: \<^verbatim>\<open>required\<close> on \<^verbatim>\<open>location.name\<close>, which an absent and an
  empty name fail, and the \<^verbatim>\<open>enum\<close> of \<^verbatim>\<open>source\<close>, which has no
  \<^verbatim>\<open>satellite\<close>. \<open>alertValidation\<close> gives the name and the source of a document
  that passes.
\<close>

fun alertSource :: "sensor_source \<Rightarrow> source option" where
  "alertSource SUsgs = Some Usgs"
| "alertSource SOpenweather = Some Openweather"
| "alertSource SNoaa = Some Noaa"
| "alertSource SSensor = Some Sensor"
| "alertSource SSatellite = None"

definition alertValidation :: "sensor_data \<Rightarrow> (string \<times> source) option" where
  "alertValidation d =
     (case name (sd_location d) of
        None \<Rightarrow> None
      | Some nm \<Rightarrow>
          if nm = [] then None
          else (case alertSource (sd_source d) of
                  None \<Rightarrow> None
                | Some src \<Rightarrow> Some (nm, src)))"

text \<open>
  The schema option \<^verbatim>\<open>trim: true\<close> of the title: the white space at both ends is
  removed when the title is set (the white space of ASCII; strings are lists of bytes).
\<close>

definition isSpace :: "char \<Rightarrow> bool" where
  "isSpace c = (c \<in> set [CHR 0x20, CHR 0x09, CHR 0x0A, CHR 0x0B, CHR 0x0C, CHR 0x0D])"

definition trim :: "string \<Rightarrow> string" where
  "trim s = rev (dropWhile isSpace (rev (dropWhile isSpace s)))"

definition getEarthquakeRecommendations :: "severity \<Rightarrow> real \<Rightarrow> string list" where
  "getEarthquakeRecommendations sev mag =
     (let base = [''Drop, Cover, and Hold On if shaking occurs'',
                  ''Move away from windows and heavy objects'',
                  ''Check for gas leaks after shaking stops'']
      in if sev = High \<or> sev = Critical
         then base @ [''Be prepared for aftershocks'',
                      ''Evacuate damaged buildings immediately'',
                      ''Move to open areas away from structures'',
                      ''Have emergency kit ready'',
                      ''Follow official evacuation orders'']
         else base)"

definition getStormRecommendations :: "severity \<Rightarrow> string list" where
  "getStormRecommendations sev =
     (let base = [''Secure loose outdoor objects'',
                  ''Stay indoors until storm passes'',
                  ''Keep emergency supplies ready'']
      in if sev = High \<or> sev = Critical
         then base @ [''Move to reinforced shelter immediately'',
                      ''Stay away from windows and exterior walls'',
                      ''Follow evacuation orders if issued'',
                      ''Charge all communication devices'',
                      ''Fill bathtubs and containers with water'']
         else base)"

definition getFloodRecommendations :: "severity \<Rightarrow> string list" where
  "getFloodRecommendations sev =
     (let base = [''Move to higher ground if water is rising'',
                  ''Avoid walking or driving through floodwater'',
                  ''Keep important documents in waterproof bags'']
      in if sev = High \<or> sev = Critical
         then base @ [''Evacuate immediately if ordered'',
                      ''Disconnect electrical appliances'',
                      ''Do not attempt to cross flooded roads'',
                      ''Signal for help if stranded'',
                      ''Boil drinking water after flooding'']
         else base)"

text \<open>
  In the queries a name that is absent matches no alert, every stored alert having a
  name. Where the document is built the name is the one that passes the validation.
\<close>

definition evaluateEarthquake :: "int \<Rightarrow> alert list \<Rightarrow> sensor_data
    \<Rightarrow> alert list \<times> (eval_error + alert option)" where
  "evaluateEarthquake now store d =
     (case magnitude (sd_readings d) of
        None \<Rightarrow> (store, Inr None)
      | Some mag \<Rightarrow>
          if mag = 0 \<or> mag < low (th_earthquake thresholds) then (store, Inr None)
          else
            (let sev = (if mag \<ge> critical (th_earthquake thresholds) then Critical
                        else if mag \<ge> high (th_earthquake thresholds) then High
                        else if mag \<ge> medium (th_earthquake thresholds) then Medium
                        else Low);
                 loc = sd_location d;
                 existing = find (\<lambda>a. a_type a = Earthquake \<and> a_status a = Active
                     \<and> al_latitude (a_location a) \<ge> latitude loc - 0.5
                     \<and> al_latitude (a_location a) \<le> latitude loc + 0.5
                     \<and> al_longitude (a_location a) \<ge> longitude loc - 0.5
                     \<and> al_longitude (a_location a) \<le> longitude loc + 0.5
                     \<and> a_createdAt a \<ge> now - 60 * 60 * 1000) store
             in case existing of
                  Some _ \<Rightarrow> (store, Inr None)
                | None \<Rightarrow>
                    (case alertValidation d of
                       None \<Rightarrow> (store, Inl ValidationError)
                     | Some (nm, src) \<Rightarrow>
                         (let al = \<lparr>
                            a_id = length store,
                            a_title = trim (''Earthquake M'' @ toFixed 1 mag @ '' - '' @ nm),
                            a_type = Earthquake,
                            a_severity = sev,
                            a_status = Active,
                            a_description = ''A magnitude '' @ toFixed 1 mag
                              @ '' earthquake detected at depth ''
                              @ (case depth (sd_readings d) of
                                   None \<Rightarrow> ''unknown'' | Some dp \<Rightarrow> toFixed 1 dp)
                              @ '' km near '' @ nm @ ''.'',
                            a_location = \<lparr> al_name = nm, al_latitude = latitude loc,
                              al_longitude = longitude loc, al_radius = mag * 20 \<rparr>,
                            a_data = noData \<lparr> ad_magnitude := Some mag,
                              ad_depth := depth (sd_readings d) \<rparr>,
                            a_source = src,
                            a_recommendations = getEarthquakeRecommendations sev mag,
                            a_resolvedAt = None,
                            a_expiresAt = Some (now + 24 * 60 * 60 * 1000),
                            a_createdAt = now \<rparr>
                          in (store @ [al], Inr (Some al))))))"

text \<open>
  \<^verbatim>\<open>_evaluateWeather\<close> is two blocks run one after the other on the same local
  variable \<^verbatim>\<open>alert\<close>: the wind check and the heatwave check. Each block takes the
  collection and the variable and returns the collection with the variable, or with
  the error thrown, which ends the function. Strings are lists of bytes: the five
  bytes before \<^verbatim>\<open>C recorded at\<close> are the UTF-8 encoding of the two characters that
  the source file has there.
\<close>

definition checkStorm :: "int \<Rightarrow> sensor_data \<Rightarrow> alert list \<times> alert option
    \<Rightarrow> alert list \<times> (eval_error + alert option)" where
  "checkStorm now d st =
     (case st of (store, alert) \<Rightarrow>
      (case windSpeed (sd_readings d) of
        None \<Rightarrow> (store, Inr alert)
      | Some ws \<Rightarrow>
          if ws \<noteq> 0 \<and> ws \<ge> low (th_windSpeed thresholds) then
            (let sev = (if ws \<ge> critical (th_windSpeed thresholds) then Critical
                        else if ws \<ge> high (th_windSpeed thresholds) then High
                        else if ws \<ge> medium (th_windSpeed thresholds) then Medium
                        else Low);
                 ty = (if ws \<ge> high (th_windSpeed thresholds) then Cyclone else Storm);
                 loc = sd_location d;
                 rf = rainfall (sd_readings d);
                 existing = find (\<lambda>a. a_type a = ty \<and> a_status a = Active
                     \<and> name loc = Some (al_name (a_location a))
                     \<and> a_createdAt a \<ge> now - 2 * 60 * 60 * 1000) store
             in case existing of
                  Some _ \<Rightarrow> (store, Inr alert)
                | None \<Rightarrow>
                    (case alertValidation d of
                       None \<Rightarrow> (store, Inl ValidationError)
                     | Some (nm, src) \<Rightarrow>
                         (let al = \<lparr>
                            a_id = length store,
                            a_title = trim ((if ty = Cyclone then ''Cyclone'' else ''Storm'')
                              @ '' Warning - '' @ nm),
                            a_type = ty,
                            a_severity = sev,
                            a_status = Active,
                            a_description = ''Wind speeds of '' @ toFixed 0 ws
                              @ '' km/h detected at '' @ nm @ ''. ''
                              @ (case rf of
                                   None \<Rightarrow> ''''
                                 | Some r \<Rightarrow> if r \<noteq> 0
                                     then ''Rainfall: '' @ toFixed 0 r @ '' mm.'' else ''''),
                            a_location = \<lparr> al_name = nm, al_latitude = latitude loc,
                              al_longitude = longitude loc, al_radius = 100 \<rparr>,
                            a_data = noData \<lparr> ad_windSpeed := Some ws, ad_rainfall := rf,
                              ad_pressure := pressure (sd_readings d) \<rparr>,
                            a_source = src,
                            a_recommendations = getStormRecommendations sev,
                            a_resolvedAt = None,
                            a_expiresAt = Some (now + 12 * 60 * 60 * 1000),
                            a_createdAt = now \<rparr>
                          in (store @ [al], Inr (Some al)))))
          else (store, Inr alert)))"

definition checkHeatwave :: "int \<Rightarrow> sensor_data \<Rightarrow> alert list \<times> alert option
    \<Rightarrow> alert list \<times> (eval_error + alert option)" where
  "checkHeatwave now d st =
     (case st of (store, alert) \<Rightarrow>
      (case temperature (sd_readings d) of
        None \<Rightarrow> (store, Inr alert)
      | Some tp \<Rightarrow>
          if tp \<noteq> 0 \<and> tp \<ge> heatwave (th_temperature thresholds) then
            (let sev = (if tp \<ge> extreme (th_temperature thresholds) then Critical else High);
                 loc = sd_location d;
                 existing = find (\<lambda>a. a_type a = Heatwave \<and> a_status a = Active
                     \<and> name loc = Some (al_name (a_location a))
                     \<and> a_createdAt a \<ge> now - 6 * 60 * 60 * 1000) store
             in case existing of
                  Some _ \<Rightarrow> (store, Inr alert)
                | None \<Rightarrow>
                    (case alertValidation d of
                       None \<Rightarrow> (store, Inl ValidationError)
                     | Some (nm, src) \<Rightarrow>
                         (let al = \<lparr>
                            a_id = length store,
                            a_title = trim (''Heatwave Alert - '' @ nm),
                            a_type = Heatwave,
                            a_severity = sev,
                            a_status = Active,
                            a_description = ''Temperature of '' @ toFixed 1 tp
                              @ [CHR 0xC2, CHR 0xAC, CHR 0xE2, CHR 0x88, CHR 0x9E]
                              @ ''C recorded at '' @ nm
                              @ ''. Stay hydrated and avoid prolonged sun exposure.'',
                            a_location = \<lparr> al_name = nm, al_latitude = latitude loc,
                              al_longitude = longitude loc, al_radius = 50 \<rparr>,
                            a_data = noData \<lparr> ad_temperature := Some tp,
                              ad_humidity := humidity (sd_readings d) \<rparr>,
                            a_source = src,
                            a_recommendations =
                              [''Stay indoors during peak hours (11 AM - 4 PM)'',
                               ''Drink plenty of water and fluids'',
                               ''Avoid strenuous outdoor activities'',
                               ''Check on elderly and vulnerable people'',
                               ''Keep pets indoors with water''],
                            a_resolvedAt = None,
                            a_expiresAt = Some (now + 24 * 60 * 60 * 1000),
                            a_createdAt = now \<rparr>
                          in (store @ [al], Inr (Some al)))))
          else (store, Inr alert)))"

definition evaluateWeather :: "int \<Rightarrow> alert list \<Rightarrow> sensor_data
    \<Rightarrow> alert list \<times> (eval_error + alert option)" where
  "evaluateWeather now store d =
     (case checkStorm now d (store, None) of
        (store1, Inl e) \<Rightarrow> (store1, Inl e)
      | (store1, Inr alert) \<Rightarrow> checkHeatwave now d (store1, alert))"

definition evaluateFlood :: "int \<Rightarrow> alert list \<Rightarrow> sensor_data
    \<Rightarrow> alert list \<times> (eval_error + alert option)" where
  "evaluateFlood now store d =
     (case waterLevel (sd_readings d) of
        None \<Rightarrow> (store, Inr None)
      | Some wl \<Rightarrow>
          if wl = 0 \<or> wl < low (th_waterLevel thresholds) then (store, Inr None)
          else
            (let sev = (if wl \<ge> critical (th_waterLevel thresholds) then Critical
                        else if wl \<ge> high (th_waterLevel thresholds) then High
                        else if wl \<ge> medium (th_waterLevel thresholds) then Medium
                        else Low);
                 loc = sd_location d;
                 rf = rainfall (sd_readings d);
                 existing = find (\<lambda>a. a_type a = Flood \<and> a_status a = Active
                     \<and> name loc = Some (al_name (a_location a))
                     \<and> a_createdAt a \<ge> now - 3 * 60 * 60 * 1000) store
             in case existing of
                  Some _ \<Rightarrow> (store, Inr None)
                | None \<Rightarrow>
                    (case alertValidation d of
                       None \<Rightarrow> (store, Inl ValidationError)
                     | Some (nm, src) \<Rightarrow>
                         (let al = \<lparr>
                            a_id = length store,
                            a_title = trim (''Flood Warning - '' @ nm),
                            a_type = Flood,
                            a_severity = sev,
                            a_status = Active,
                            a_description = ''Water level at '' @ toFixed 1 wl @ ''m with ''
                              @ (case rf of None \<Rightarrow> ''0'' | Some r \<Rightarrow> toFixed 0 r)
                              @ ''mm rainfall near '' @ nm @ ''.'',
                            a_location = \<lparr> al_name = nm, al_latitude = latitude loc,
                              al_longitude = longitude loc, al_radius = 75 \<rparr>,
                            a_data = noData \<lparr> ad_waterLevel := Some wl, ad_rainfall := rf \<rparr>,
                            a_source = src,
                            a_recommendations = getFloodRecommendations sev,
                            a_resolvedAt = None,
                            a_expiresAt = Some (now + 48 * 60 * 60 * 1000),
                            a_createdAt = now \<rparr>
                          in (store @ [al], Inr (Some al))))))"

text \<open>
  \<^verbatim>\<open>_evaluateDataPoint\<close> returns the promise of the function it calls without
  awaiting it, so its own \<^verbatim>\<open>catch\<close> never sees the rejection of that promise: an
  error thrown by the evaluation of a reading is the error of \<^verbatim>\<open>_evaluateDataPoint\<close>.
\<close>

definition evaluateDataPoint :: "int \<Rightarrow> alert list \<Rightarrow> sensor_data
    \<Rightarrow> alert list \<times> (eval_error + alert option)" where
  "evaluateDataPoint now store d =
     (case sd_type d of
        SEarthquake \<Rightarrow> evaluateEarthquake now store d
      | SWeather \<Rightarrow> evaluateWeather now store d
      | SFlood \<Rightarrow> evaluateFlood now store d
      | _ \<Rightarrow> (store, Inr None))"

section \<open>Push transport (socket.io server and WebSocketService)\<close>

text \<open>
  The socket.io server is the list of its connected sockets, each with the rooms it
  joined (a new socket is in the room of its own id). \<open>emit\<close> is
  \<^verbatim>\<open>io.emit(event, payload)\<close>, \<open>emitTo\<close> is \<^verbatim>\<open>io.to(room).emit(event, payload)\<close>;
  both return the deliveries made: the receiving socket, the event and the payload.
\<close>

record socket =
  s_id :: string
  s_rooms :: "string set"

definition emit :: "socket list \<Rightarrow> string \<Rightarrow> 'p \<Rightarrow> (string \<times> string \<times> 'p) list" where
  "emit io ev p = map (\<lambda>s. (s_id s, ev, p)) io"

definition emitTo :: "socket list \<Rightarrow> string \<Rightarrow> string \<Rightarrow> 'p \<Rightarrow> (string \<times> string \<times> 'p) list" where
  "emitTo io room ev p = map (\<lambda>s. (s_id s, ev, p)) (filter (\<lambda>s. room \<in> s_rooms s) io)"

record client_info =
  connectedAt :: int
  subscriptions :: "string list"

text \<open>
  WebSocketService: \<^verbatim>\<open>this.io\<close> and the Map \<^verbatim>\<open>this.connectedClients\<close>, an
  association list in insertion order.
\<close>

record ws_service =
  ws_io :: "socket list"
  connectedClients :: "(string \<times> client_info) list"

definition wsInit :: ws_service where
  "wsInit = \<lparr> ws_io = [], connectedClients = [] \<rparr>"

definition onConnection :: "int \<Rightarrow> string \<Rightarrow> ws_service \<Rightarrow> ws_service" where
  "onConnection now sid ws =
     \<lparr> ws_io = ws_io ws @ [\<lparr> s_id = sid, s_rooms = {sid} \<rparr>],
       connectedClients = AList.update sid \<lparr> connectedAt = now, subscriptions = [] \<rparr>
         (connectedClients ws) \<rparr>"

definition onSubscribe :: "string \<Rightarrow> string list \<Rightarrow> ws_service \<Rightarrow> ws_service" where
  "onSubscribe sid types ws =
     (case map_of (connectedClients ws) sid of
        None \<Rightarrow> ws
      | Some client \<Rightarrow>
          \<lparr> ws_io = map (\<lambda>s. if s_id s = sid then s\<lparr>s_rooms := s_rooms s \<union> set types\<rparr> else s)
              (ws_io ws),
            connectedClients = AList.update sid (client\<lparr>subscriptions := types\<rparr>)
              (connectedClients ws) \<rparr>)"

definition onSubscribeLocation :: "string \<Rightarrow> real \<times> real \<Rightarrow> ws_service \<Rightarrow> ws_service" where
  "onSubscribeLocation sid loc ws =
     (let roomName = ''loc_'' @ toFixed 2 (fst loc) @ ''_'' @ toFixed 2 (snd loc)
      in ws\<lparr>ws_io := map (\<lambda>s. if s_id s = sid then s\<lparr>s_rooms := insert roomName (s_rooms s)\<rparr> else s)
           (ws_io ws)\<rparr>)"

definition onDisconnect :: "string \<Rightarrow> ws_service \<Rightarrow> ws_service" where
  "onDisconnect sid ws =
     \<lparr> ws_io = filter (\<lambda>s. s_id s \<noteq> sid) (ws_io ws),
       connectedClients = AList.delete sid (connectedClients ws) \<rparr>"

definition WS_broadcastAlert :: "ws_service \<Rightarrow> 'p \<Rightarrow> (string \<times> string \<times> 'p) list" where
  "WS_broadcastAlert ws al = emit (ws_io ws) ''new-alert'' al"

definition sendTypeAlert :: "ws_service \<Rightarrow> string \<Rightarrow> 'p \<Rightarrow> (string \<times> string \<times> 'p) list" where
  "sendTypeAlert ws ty al = emitTo (ws_io ws) ty ''new-alert'' al"

definition sendDataUpdate :: "ws_service \<Rightarrow> 'p \<Rightarrow> (string \<times> string \<times> 'p) list" where
  "sendDataUpdate ws dat = emit (ws_io ws) ''data-update'' dat"

definition getClientCount :: "ws_service \<Rightarrow> nat" where
  "getClientCount ws = length (connectedClients ws)"

section \<open>Broadcast of new alerts (AlertService)\<close>

text \<open>The object literal that \<^verbatim>\<open>_broadcastAlert\<close> emits, as a list of its keys and values.\<close>

datatype jsval =
  JId nat | JStr string | JNum real | JDate int | JObj "(string \<times> jsval) list"

definition AS_broadcastAlert :: "socket list option \<Rightarrow> alert \<Rightarrow> (string \<times> string \<times> (string \<times> jsval) list) list" where
  "AS_broadcastAlert io al =
     (case io of
        None \<Rightarrow> []
      | Some srv \<Rightarrow>
          emit srv ''new-alert''
            [(''id'', JId (a_id al)),
             (''title'', JStr (a_title al)),
             (''type'', JStr (typeName (a_type al))),
             (''severity'', JStr (severityName (a_severity al))),
             (''description'', JStr (a_description al)),
             (''location'', JObj [(''name'', JStr (al_name (a_location al))),
                                  (''latitude'', JNum (al_latitude (a_location al))),
                                  (''longitude'', JNum (al_longitude (a_location al))),
                                  (''radius'', JNum (al_radius (a_location al)))]),
             (''createdAt'', JDate (a_createdAt al))])"

text \<open>
  \<^verbatim>\<open>evaluateAlerts\<close>: the sensor documents of the last 30 minutes, newest first, are
  evaluated one after the other on the same collection; then every alert returned is
  broadcast. An error thrown by an evaluation ends the loop and lands in the
  \<^verbatim>\<open>catch\<close> of \<^verbatim>\<open>evaluateAlerts\<close>, which returns the empty list: nothing is
  broadcast then, and the alerts saved before the error stay in the collection. The
  result is the collection, the alerts returned and the deliveries.
\<close>

fun evaluateAll :: "int \<Rightarrow> alert list \<Rightarrow> sensor_data list
    \<Rightarrow> alert list \<times> (eval_error + alert list)" where
  "evaluateAll now store [] = (store, Inr [])"
| "evaluateAll now store (d # ds) =
     (case evaluateDataPoint now store d of
        (store', Inl e) \<Rightarrow> (store', Inl e)
      | (store', Inr r) \<Rightarrow>
          (case evaluateAll now store' ds of
             (store'', Inl e) \<Rightarrow> (store'', Inl e)
           | (store'', Inr newAlerts) \<Rightarrow>
               (store'', Inr (case r of None \<Rightarrow> newAlerts | Some al \<Rightarrow> al # newAlerts))))"

definition evaluateAlerts :: "int \<Rightarrow> socket list option \<Rightarrow> sensor_data list \<Rightarrow> alert list
    \<Rightarrow> alert list \<times> alert list \<times> (string \<times> string \<times> (string \<times> jsval) list) list" where
  "evaluateAlerts now io sensorDB store =
     (let thirtyMinAgo = now - 30 * 60 * 1000;
          recentData = sort_key (\<lambda>d. case sd_createdAt d of None \<Rightarrow> 0 | Some t \<Rightarrow> - t)
            (filter (\<lambda>d. case sd_createdAt d of None \<Rightarrow> False | Some t \<Rightarrow> t \<ge> thirtyMinAgo)
               sensorDB)
      in if length recentData = 0 then (store, [], [])
         else (case evaluateAll now store recentData of
                 (store', Inl e) \<Rightarrow> (store', [], [])
               | (store', Inr newAlerts) \<Rightarrow>
                   (store', newAlerts, concat (map (AS_broadcastAlert io) newAlerts))))"

section \<open>Status updates (PATCH /api/alerts/:id)\<close>

datatype http_error = NotFound | BadRequest

record patch_body =
  b_status :: "string option"
  b_severity :: "string option"
  b_description :: "string option"
  b_recommendations :: "string list option"

text \<open>
  The schema validators that \<^verbatim>\<open>runValidators: true\<close> runs on the values set: the
  two \<^verbatim>\<open>enum\<close> lists and \<^verbatim>\<open>required\<close> on the description.
\<close>

definition statusOfName :: "string \<Rightarrow> status option" where
  "statusOfName s = find (\<lambda>st. statusName st = s) [Active, Monitoring, Resolved, Expired]"

definition severityOfName :: "string \<Rightarrow> severity option" where
  "severityOfName s = find (\<lambda>sv. severityName sv = s) [Low, Medium, High, Critical]"

definition validUpdates :: "patch_body \<Rightarrow> bool" where
  "validUpdates body =
     ((case b_status body of None \<Rightarrow> True | Some s \<Rightarrow> statusOfName s \<noteq> None)
      \<and> (case b_severity body of None \<Rightarrow> True | Some s \<Rightarrow> severityOfName s \<noteq> None)
      \<and> (case b_description body of None \<Rightarrow> True | Some s \<Rightarrow> s \<noteq> []))"

definition applyUpdates :: "int \<Rightarrow> patch_body \<Rightarrow> alert \<Rightarrow> alert" where
  "applyUpdates now body al =
     (let a1 = (case b_status body of None \<Rightarrow> al
                | Some s \<Rightarrow> (case statusOfName s of None \<Rightarrow> al | Some st \<Rightarrow> al\<lparr>a_status := st\<rparr>));
          a2 = (case b_severity body of None \<Rightarrow> a1
                | Some s \<Rightarrow> (case severityOfName s of None \<Rightarrow> a1 | Some sv \<Rightarrow> a1\<lparr>a_severity := sv\<rparr>));
          a3 = (case b_description body of None \<Rightarrow> a2 | Some s \<Rightarrow> a2\<lparr>a_description := s\<rparr>);
          a4 = (case b_recommendations body of None \<Rightarrow> a3 | Some rs \<Rightarrow> a3\<lparr>a_recommendations := rs\<rparr>)
      in if b_status body = Some ''resolved'' then a4\<lparr>a_resolvedAt := Some now\<rparr> else a4)"

text \<open>
  The handler: \<^verbatim>\<open>findByIdAndUpdate\<close> with \<^verbatim>\<open>new: true\<close> replaces the document of
  that id and returns it; a failed validation answers 400, an unknown id 404; the
  updated alert is emitted as \<^verbatim>\<open>alert-updated\<close> to every socket.
\<close>

fun replaceFirst :: "('a \<Rightarrow> bool) \<Rightarrow> 'a \<Rightarrow> 'a list \<Rightarrow> 'a list" where
  "replaceFirst P y [] = []"
| "replaceFirst P y (x # xs) = (if P x then y # xs else x # replaceFirst P y xs)"

definition patchAlert :: "int \<Rightarrow> socket list option \<Rightarrow> alert list \<Rightarrow> nat \<Rightarrow> patch_body
    \<Rightarrow> alert list \<times> (http_error + alert) \<times> (string \<times> string \<times> alert) list" where
  "patchAlert now io store ident body =
     (if \<not> validUpdates body then (store, Inl BadRequest, [])
      else (case find (\<lambda>a. a_id a = ident) store of
              None \<Rightarrow> (store, Inl NotFound, [])
            | Some old \<Rightarrow>
                (let al = applyUpdates now body old
                 in (replaceFirst (\<lambda>a. a_id a = ident) al store,
                     Inr al,
                     (case io of None \<Rightarrow> [] | Some srv \<Rightarrow> emit srv ''alert-updated'' al)))))"


section \<open>Data collection (DataCollectorService)\<close>

record place =
  p_name :: string
  lat :: real
  lon :: real

definition monitoredLocations :: "place list" where
  "monitoredLocations =
     [\<lparr> p_name = ''Mumbai, India'', lat = 19.076, lon = 72.8777 \<rparr>,
      \<lparr> p_name = ''Delhi, India'', lat = 28.6139, lon = 77.2090 \<rparr>,
      \<lparr> p_name = ''Chennai, India'', lat = 13.0827, lon = 80.2707 \<rparr>,
      \<lparr> p_name = ''Kolkata, India'', lat = 22.5726, lon = 88.3639 \<rparr>,
      \<lparr> p_name = ''Tokyo, Japan'', lat = 35.6762, lon = 139.6503 \<rparr>,
      \<lparr> p_name = ''San Francisco, USA'', lat = 37.7749, lon = - 122.4194 \<rparr>,
      \<lparr> p_name = ''Jakarta, Indonesia'', lat = - 6.2088, lon = 106.8456 \<rparr>,
      \<lparr> p_name = ''Manila, Philippines'', lat = 14.5995, lon = 120.9842 \<rparr>,
      \<lparr> p_name = ''Dhaka, Bangladesh'', lat = 23.8103, lon = 90.4125 \<rparr>,
      \<lparr> p_name = ''Kathmandu, Nepal'', lat = 27.7172, lon = 85.3240 \<rparr>]"

definition noReadings :: readings where
  "noReadings = \<lparr> temperature = None, humidity = None, pressure = None, windSpeed = None,
     windDirection = None, rainfall = None, visibility = None, magnitude = None,
     depth = None, waterLevel = None \<rparr>"

text \<open>
  The upstream services are parameters: \<open>owm\<close> answers the OpenWeatherMap request for
  a place, \<open>usgs\<close> the USGS query, each with \<open>Inl\<close> for a request that throws (no
  connection, an error status, the 10 s timeout). \<^verbatim>\<open>Math.random()\<close> is the stream
  \<open>rnd\<close>, read at the positions the calls are made in.
\<close>

datatype collect_error = RequestFailed | TypeError

record owm_response =
  main_temp :: real
  main_humidity :: real
  main_pressure :: real
  wind_speed :: real
  wind_deg :: "real option"
  rain :: "real option option"
  owm_visibility :: real

fun simWeatherLoop :: "(nat \<Rightarrow> real) \<Rightarrow> nat \<Rightarrow> place list \<Rightarrow> sensor_data list" where
  "simWeatherLoop rnd k [] = []"
| "simWeatherLoop rnd k (l # ls) =
     (let baseTemp = 25 + (rnd k - 0.5) * 20;
          isExtreme = (rnd (k + 1) > 0.85);
          dat = \<lparr> sd_source = SOpenweather, sd_type = SWeather,
            sd_location = \<lparr> name = Some (p_name l), latitude = lat l, longitude = lon l \<rparr>,
            sd_readings = \<lparr>
              temperature = Some (if isExtreme then baseTemp + 15 else baseTemp),
              humidity = Some (of_int \<lfloor>40 + rnd (k + 2) * 55\<rfloor>),
              pressure = Some (of_int \<lfloor>990 + rnd (k + 3) * 40\<rfloor>),
              windSpeed = Some (if isExtreme then 80 + rnd (k + 4) * 100 else 5 + rnd (k + 4) * 30),
              windDirection = Some (of_int \<lfloor>rnd (k + 5) * 360\<rfloor>),
              rainfall = Some (if isExtreme then 50 + rnd (k + 6) * 150 else rnd (k + 6) * 20),
              visibility = Some (if isExtreme then 0.5 + rnd (k + 7) * 2 else 5 + rnd (k + 7) * 10),
              magnitude = None, depth = None, waterLevel = None \<rparr>,
            sd_quality = Moderate, sd_createdAt = None \<rparr>
      in dat # simWeatherLoop rnd (k + 8) ls)"

definition generateSimulatedWeatherData :: "(nat \<Rightarrow> real) \<Rightarrow> sensor_data list" where
  "generateSimulatedWeatherData rnd = simWeatherLoop rnd 0 monitoredLocations"

fun collectWeatherLoop :: "(place \<Rightarrow> collect_error + owm_response) \<Rightarrow> int \<Rightarrow> place list
    \<Rightarrow> sensor_data list \<times> sensor_data list \<Rightarrow> sensor_data list \<times> sensor_data list" where
  "collectWeatherLoop owm now [] st = st"
| "collectWeatherLoop owm now (l # ls) (db, results) =
     (case owm l of
        Inl e \<Rightarrow> collectWeatherLoop owm now ls (db, results)
      | Inr dat \<Rightarrow>
          (let sensorData = \<lparr> sd_source = SOpenweather, sd_type = SWeather,
             sd_location = \<lparr> name = Some (p_name l), latitude = lat l, longitude = lon l \<rparr>,
             sd_readings = \<lparr>
               temperature = Some (main_temp dat),
               humidity = Some (main_humidity dat),
               pressure = Some (main_pressure dat),
               windSpeed = Some (wind_speed dat * 3.6),
               windDirection = wind_deg dat,
               rainfall = Some (case rain dat of None \<Rightarrow> 0 | Some None \<Rightarrow> 0 | Some (Some r) \<Rightarrow> r),
               visibility = Some (owm_visibility dat / 1000),
               magnitude = None, depth = None, waterLevel = None \<rparr>,
             sd_quality = Good, sd_createdAt = Some now \<rparr>
           in collectWeatherLoop owm now ls (db @ [sensorData], results @ [sensorData])))"

text \<open>
  \<^verbatim>\<open>collectWeatherData\<close>: the SensorData collection after the call and the batch
  returned. A request that throws is caught inside the loop, logged, and the loop goes
  on with the next place.
\<close>

definition collectWeatherData :: "string \<Rightarrow> (place \<Rightarrow> collect_error + owm_response) \<Rightarrow> (nat \<Rightarrow> real)
    \<Rightarrow> int \<Rightarrow> sensor_data list \<Rightarrow> sensor_data list \<times> sensor_data list" where
  "collectWeatherData openWeatherKey owm rnd now db =
     (if openWeatherKey = [] \<or> openWeatherKey = ''your_openweather_api_key_here''
      then (db, generateSimulatedWeatherData rnd)
      else collectWeatherLoop owm now monitoredLocations (db, []))"

record usgs_feature =
  f_place :: "string option"
  f_mag :: "real option"
  f_status :: string
  f_coordinates :: "real \<times> real \<times> real"

definition zones :: "place list" where
  "zones =
     [\<lparr> p_name = ''Pacific Ring of Fire'', lat = 35.6762, lon = 139.6503 \<rparr>,
      \<lparr> p_name = ''Himalayan Belt'', lat = 27.7172, lon = 85.3240 \<rparr>,
      \<lparr> p_name = ''San Andreas Fault'', lat = 37.7749, lon = - 122.4194 \<rparr>,
      \<lparr> p_name = ''Indonesian Arc'', lat = - 6.2088, lon = 106.8456 \<rparr>,
      \<lparr> p_name = ''Philippine Fault'', lat = 14.5995, lon = 120.9842 \<rparr>]"

text \<open>
  The loop of \<^verbatim>\<open>_generateSimulatedEarthquakeData\<close>, \<open>n\<close> events to go. An index
  outside \<^verbatim>\<open>zones\<close> reads \<^verbatim>\<open>undefined\<close>, and \<^verbatim>\<open>zone.name\<close> then throws.
\<close>

fun simQuakeLoop :: "(nat \<Rightarrow> real) \<Rightarrow> nat \<Rightarrow> nat \<Rightarrow> collect_error + sensor_data list" where
  "simQuakeLoop rnd k 0 = Inr []"
| "simQuakeLoop rnd k (Suc n) =
     (let i = \<lfloor>rnd k * real (length zones)\<rfloor>
      in if i < 0 \<or> i \<ge> int (length zones) then Inl TypeError
         else
           (let zone = zones ! nat i;
                dat = \<lparr> sd_source = SUsgs, sd_type = SEarthquake,
                  sd_location = \<lparr> name = Some (''Near '' @ p_name zone),
                    latitude = lat zone + (rnd (k + 1) - 0.5) * 5,
                    longitude = lon zone + (rnd (k + 2) - 0.5) * 5 \<rparr>,
                  sd_readings = noReadings \<lparr>
                    magnitude := Some (2.5 + rnd (k + 3) * 5),
                    depth := Some (5 + rnd (k + 4) * 300) \<rparr>,
                  sd_quality = Moderate, sd_createdAt = None \<rparr>
            in case simQuakeLoop rnd (k + 5) n of
                 Inl e \<Rightarrow> Inl e
               | Inr results \<Rightarrow> Inr (dat # results)))"

definition generateSimulatedEarthquakeData :: "(nat \<Rightarrow> real) \<Rightarrow> collect_error + sensor_data list" where
  "generateSimulatedEarthquakeData rnd =
     (let numEvents = nat \<lfloor>2 + rnd 0 * 5\<rfloor> in simQuakeLoop rnd 1 numEvents)"

definition quakeDoc :: "int \<Rightarrow> usgs_feature \<Rightarrow> sensor_data" where
  "quakeDoc now feature =
     (case f_coordinates feature of
        (c0, c1, c2) \<Rightarrow>
          \<lparr> sd_source = SUsgs, sd_type = SEarthquake,
            sd_location = \<lparr> name = Some (case f_place feature of None \<Rightarrow> ''Unknown''
                                      | Some pl \<Rightarrow> if pl = [] then ''Unknown'' else pl),
              latitude = c1, longitude = c0 \<rparr>,
            sd_readings = noReadings \<lparr> magnitude := f_mag feature, depth := Some c2 \<rparr>,
            sd_quality = (if f_status feature = ''reviewed'' then Good else Moderate),
            sd_createdAt = Some now \<rparr>)"

text \<open>
  \<^verbatim>\<open>collectEarthquakeData\<close>: every throw inside the \<^verbatim>\<open>try\<close> lands in the handler,
  which returns the simulated batch.
\<close>

definition collectEarthquakeData :: "(collect_error + usgs_feature list) \<Rightarrow> (nat \<Rightarrow> real) \<Rightarrow> int
    \<Rightarrow> sensor_data list \<Rightarrow> sensor_data list \<times> (collect_error + sensor_data list)" where
  "collectEarthquakeData usgs rnd now db =
     (case usgs of
        Inl e \<Rightarrow> (db, generateSimulatedEarthquakeData rnd)
      | Inr features \<Rightarrow>
          (let results = map (quakeDoc now) features in (db @ results, Inr results)))"

definition floodProne :: "place list" where
  "floodProne =
     [\<lparr> p_name = ''Ganges Basin, India'', lat = 25.3176, lon = 82.9739 \<rparr>,
      \<lparr> p_name = ''Brahmaputra Valley, India'', lat = 26.1445, lon = 91.7362 \<rparr>,
      \<lparr> p_name = ''Mekong Delta, Vietnam'', lat = 10.0452, lon = 105.7469 \<rparr>,
      \<lparr> p_name = ''Mississippi River, USA'', lat = 29.9511, lon = - 90.0715 \<rparr>,
      \<lparr> p_name = ''Rhine River, Germany'', lat = 50.9375, lon = 6.9603 \<rparr>]"

fun simFloodLoop :: "(nat \<Rightarrow> real) \<Rightarrow> nat \<Rightarrow> place list \<Rightarrow> sensor_data list" where
  "simFloodLoop rnd k [] = []"
| "simFloodLoop rnd k (area # areas) =
     (let isFlooding = (rnd k > 0.7);
          dat = \<lparr> sd_source = SSensor, sd_type = SFlood,
            sd_location = \<lparr> name = Some (p_name area), latitude = lat area, longitude = lon area \<rparr>,
            sd_readings = noReadings \<lparr>
              waterLevel := Some (if isFlooding then 5 + rnd (k + 1) * 10 else 1 + rnd (k + 1) * 3),
              rainfall := Some (if isFlooding then 80 + rnd (k + 2) * 120 else 5 + rnd (k + 2) * 30) \<rparr>,
            sd_quality = Moderate, sd_createdAt = None \<rparr>
      in dat # simFloodLoop rnd (k + 3) areas)"

definition generateSimulatedFloodData :: "(nat \<Rightarrow> real) \<Rightarrow> sensor_data list" where
  "generateSimulatedFloodData rnd = simFloodLoop rnd 0 floodProne"

definition collectFloodData :: "(nat \<Rightarrow> real) \<Rightarrow> sensor_data list" where
  "collectFloodData rnd = generateSimulatedFloodData rnd"


section \<open>Example inputs\<close>

text \<open>Concrete readings and alerts on which the theorems below are instantiated.\<close>

definition exampleLocation :: location where
  "exampleLocation = \<lparr> name = Some ''Ganges Basin, India'', latitude = 25.3, longitude = 82.9 \<rparr>"

definition exampleSensor :: "sensor_type \<Rightarrow> readings \<Rightarrow> sensor_data" where
  "exampleSensor ty r = \<lparr> sd_source = SSensor, sd_type = ty, sd_location = exampleLocation,
     sd_readings = r, sd_quality = Good, sd_createdAt = Some 0 \<rparr>"

definition exampleAlert :: "alert_type \<Rightarrow> status \<Rightarrow> string \<Rightarrow> real \<Rightarrow> real \<Rightarrow> int \<Rightarrow> alert" where
  "exampleAlert ty st nm la lo t = \<lparr> a_id = 0, a_title = ''Example'', a_type = ty,
     a_severity = High, a_status = st, a_description = ''Example alert'',
     a_location = \<lparr> al_name = nm, al_latitude = la, al_longitude = lo, al_radius = 50 \<rparr>,
     a_data = noData, a_source = Manual, a_recommendations = [],
     a_resolvedAt = None, a_expiresAt = None, a_createdAt = t \<rparr>"

section \<open>Vocabulary of the properties\<close>

text \<open>
  The alert that the wind check, and the heatwave check, of \<^verbatim>\<open>_evaluateWeather\<close>
  creates for a reading: its type and its severity.
\<close>

definition isWindAlert :: "sensor_data \<Rightarrow> alert \<Rightarrow> bool" where
  "isWindAlert d al = (case windSpeed (sd_readings d) of
      None \<Rightarrow> False
    | Some v \<Rightarrow> 40 \<le> v \<and> a_type al = (if 100 \<le> v then Cyclone else Storm)
        \<and> a_severity al = (if 150 \<le> v then Critical else if 100 \<le> v then High
             else if 70 \<le> v then Medium else Low))"

definition isHeatAlert :: "sensor_data \<Rightarrow> alert \<Rightarrow> bool" where
  "isHeatAlert d al = (case temperature (sd_readings d) of
      None \<Rightarrow> False
    | Some tp \<Rightarrow> 42 \<le> tp \<and> a_type al = Heatwave
        \<and> a_severity al = (if 45 \<le> tp then Critical else High))"

section \<open>Properties of the evaluation functions\<close>

lemma find_None_conv: "(find P xs = None) = (\<forall>x\<in>set xs. \<not> P x)"
  by (auto simp: find_None_iff)

lemma find_Some_ex: "x \<in> set xs \<Longrightarrow> P x \<Longrightarrow> \<exists>y. find P xs = Some y"
  by (cases "find P xs") (auto simp: find_None_iff)

subsection \<open>Validation of the alert\<close>

lemma alertSource_None: "alertSource s = None \<longleftrightarrow> s = SSatellite"
  by (cases s) simp_all

lemma alertValidation_None:
  "alertValidation d = None \<longleftrightarrow>
     name (sd_location d) = None \<or> name (sd_location d) = Some [] \<or> sd_source d = SSatellite"
  by (auto simp: alertValidation_def alertSource_None split: option.splits)

lemma alertValidation_Some:
  assumes "name (sd_location d) = Some nm" "nm \<noteq> []" "sd_source d \<noteq> SSatellite"
  shows "\<exists>src. alertValidation d = Some (nm, src)"
  using assms by (cases "sd_source d") (simp_all add: alertValidation_def)

lemma alertValidation_name:
  "alertValidation d = Some (nm, src) \<Longrightarrow> name (sd_location d) = Some nm \<and> nm \<noteq> []"
  by (auto simp: alertValidation_def split: option.splits if_splits)

subsection \<open>Flood readings\<close>

lemma evaluateFlood_absent:
  "waterLevel (sd_readings d) = None \<Longrightarrow> evaluateFlood now store d = (store, Inr None)"
  by (simp add: evaluateFlood_def)

lemma evaluateFlood_below:
  "waterLevel (sd_readings d) = Some wl \<Longrightarrow> wl < 3 \<Longrightarrow> evaluateFlood now store d = (store, Inr None)"
  by (simp add: evaluateFlood_def thresholds_def)

lemma evaluateFlood_suppress:
  assumes "a \<in> set store" "a_type a = Flood" "a_status a = Active"
    "name (sd_location d) = Some (al_name (a_location a))"
    "now - 3 * 60 * 60 * 1000 \<le> a_createdAt a"
  shows "evaluateFlood now store d = (store, Inr None)"
proof -
  let ?P = "\<lambda>a. a_type a = Flood \<and> a_status a = Active
    \<and> name (sd_location d) = Some (al_name (a_location a))
    \<and> a_createdAt a \<ge> now - 3 * 60 * 60 * 1000"
  from assms have "\<exists>y. find ?P store = Some y"
    by (intro find_Some_ex[of a]) auto
  then show ?thesis
    by (auto simp: evaluateFlood_def Let_def split: option.splits)
qed

lemma evaluateFlood_admit:
  assumes "waterLevel (sd_readings d) = Some wl" "3 \<le> wl"
    "alertValidation d = Some (nm, src)"
    "\<forall>a\<in>set store. \<not> (a_type a = Flood \<and> a_status a = Active
        \<and> name (sd_location d) = Some (al_name (a_location a))
        \<and> now - 3 * 60 * 60 * 1000 \<le> a_createdAt a)"
  shows "\<exists>al. evaluateFlood now store d = (store @ [al], Inr (Some al))
    \<and> a_type al = Flood \<and> a_status al = Active \<and> a_createdAt al = now
    \<and> al_name (a_location al) = nm
    \<and> a_severity al = (if 12 \<le> wl then Critical else if 8 \<le> wl then High
         else if 5 \<le> wl then Medium else Low)"
proof -
  let ?P = "\<lambda>a. a_type a = Flood \<and> a_status a = Active
    \<and> name (sd_location d) = Some (al_name (a_location a))
    \<and> a_createdAt a \<ge> now - 3 * 60 * 60 * 1000"
  from assms(4) have "find ?P store = None"
    by (simp add: find_None_conv)
  with assms(1,2,3) show ?thesis
    by (simp add: evaluateFlood_def Let_def thresholds_def)
qed

lemma evaluateFlood_invalid:
  assumes "waterLevel (sd_readings d) = Some wl" "3 \<le> wl"
    "alertValidation d = None"
    "\<forall>a\<in>set store. \<not> (a_type a = Flood \<and> a_status a = Active
        \<and> name (sd_location d) = Some (al_name (a_location a))
        \<and> now - 3 * 60 * 60 * 1000 \<le> a_createdAt a)"
  shows "evaluateFlood now store d = (store, Inl ValidationError)"
proof -
  let ?P = "\<lambda>a. a_type a = Flood \<and> a_status a = Active
    \<and> name (sd_location d) = Some (al_name (a_location a))
    \<and> a_createdAt a \<ge> now - 3 * 60 * 60 * 1000"
  from assms(4) have "find ?P store = None"
    by (simp add: find_None_conv)
  with assms(1,2,3) show ?thesis
    by (simp add: evaluateFlood_def Let_def thresholds_def)
qed

lemma evaluateFlood_shapes:
  "evaluateFlood now store d = (store, Inr None)
   \<or> (evaluateFlood now store d = (store, Inl ValidationError) \<and> alertValidation d = None)
   \<or> (\<exists>al wl. evaluateFlood now store d = (store @ [al], Inr (Some al))
        \<and> waterLevel (sd_readings d) = Some wl \<and> 3 \<le> wl \<and> a_type al = Flood
        \<and> a_severity al = (if 12 \<le> wl then Critical else if 8 \<le> wl then High
             else if 5 \<le> wl then Medium else Low))"
proof (cases "waterLevel (sd_readings d)")
  case None
  then show ?thesis by (simp add: evaluateFlood_absent)
next
  case (Some wl)
  show ?thesis
  proof (cases "wl < 3")
    case True
    with Some show ?thesis by (simp add: evaluateFlood_below)
  next
    case False
    then have wl: "3 \<le> wl" by simp
    show ?thesis
    proof (cases "\<exists>a\<in>set store. a_type a = Flood \<and> a_status a = Active
        \<and> name (sd_location d) = Some (al_name (a_location a))
        \<and> now - 3 * 60 * 60 * 1000 \<le> a_createdAt a")
      case True
      then show ?thesis using evaluateFlood_suppress by blast
    next
      case False
      then have fresh: "\<forall>a\<in>set store. \<not> (a_type a = Flood \<and> a_status a = Active
        \<and> name (sd_location d) = Some (al_name (a_location a))
        \<and> now - 3 * 60 * 60 * 1000 \<le> a_createdAt a)" by blast
      show ?thesis
      proof (cases "alertValidation d")
        case None
        from evaluateFlood_invalid[OF Some wl None fresh] None show ?thesis by simp
      next
        case (Some v)
        obtain nm src where "v = (nm, src)" by (cases v)
        with Some have "alertValidation d = Some (nm, src)" by simp
        from evaluateFlood_admit[OF \<open>waterLevel (sd_readings d) = Some wl\<close> wl this fresh]
          \<open>waterLevel (sd_readings d) = Some wl\<close> wl
        show ?thesis by blast
      qed
    qed
  qed
qed

subsection \<open>Earthquake readings\<close>

lemma evaluateEarthquake_absent:
  "magnitude (sd_readings d) = None \<Longrightarrow> evaluateEarthquake now store d = (store, Inr None)"
  by (simp add: evaluateEarthquake_def)

lemma evaluateEarthquake_below:
  "magnitude (sd_readings d) = Some m \<Longrightarrow> m < 3 \<Longrightarrow> evaluateEarthquake now store d = (store, Inr None)"
  by (simp add: evaluateEarthquake_def thresholds_def)

lemma evaluateEarthquake_suppress:
  assumes "a \<in> set store" "a_type a = Earthquake" "a_status a = Active"
    "latitude (sd_location d) - 0.5 \<le> al_latitude (a_location a)"
    "al_latitude (a_location a) \<le> latitude (sd_location d) + 0.5"
    "longitude (sd_location d) - 0.5 \<le> al_longitude (a_location a)"
    "al_longitude (a_location a) \<le> longitude (sd_location d) + 0.5"
    "now - 60 * 60 * 1000 \<le> a_createdAt a"
  shows "evaluateEarthquake now store d = (store, Inr None)"
proof -
  let ?P = "\<lambda>a. a_type a = Earthquake \<and> a_status a = Active
    \<and> al_latitude (a_location a) \<ge> latitude (sd_location d) - 0.5
    \<and> al_latitude (a_location a) \<le> latitude (sd_location d) + 0.5
    \<and> al_longitude (a_location a) \<ge> longitude (sd_location d) - 0.5
    \<and> al_longitude (a_location a) \<le> longitude (sd_location d) + 0.5
    \<and> a_createdAt a \<ge> now - 60 * 60 * 1000"
  from assms have "?P a" by simp
  with assms(1) have "\<exists>y. find ?P store = Some y"
    by (rule find_Some_ex)
  then show ?thesis
    by (auto simp: evaluateEarthquake_def Let_def split: option.splits)
qed

lemma evaluateEarthquake_admit:
  assumes "magnitude (sd_readings d) = Some m" "3 \<le> m"
    "alertValidation d = Some (nm, src)"
    "\<forall>a\<in>set store. \<not> (a_type a = Earthquake \<and> a_status a = Active
        \<and> latitude (sd_location d) - 0.5 \<le> al_latitude (a_location a)
        \<and> al_latitude (a_location a) \<le> latitude (sd_location d) + 0.5
        \<and> longitude (sd_location d) - 0.5 \<le> al_longitude (a_location a)
        \<and> al_longitude (a_location a) \<le> longitude (sd_location d) + 0.5
        \<and> now - 60 * 60 * 1000 \<le> a_createdAt a)"
  shows "\<exists>al. evaluateEarthquake now store d = (store @ [al], Inr (Some al))
    \<and> a_type al = Earthquake \<and> a_status al = Active \<and> a_createdAt al = now
    \<and> al_name (a_location al) = nm
    \<and> a_severity al = (if 7 \<le> m then Critical else if 6 \<le> m then High
         else if 4.5 \<le> m then Medium else Low)"
proof -
  let ?P = "\<lambda>a. a_type a = Earthquake \<and> a_status a = Active
    \<and> al_latitude (a_location a) \<ge> latitude (sd_location d) - 0.5
    \<and> al_latitude (a_location a) \<le> latitude (sd_location d) + 0.5
    \<and> al_longitude (a_location a) \<ge> longitude (sd_location d) - 0.5
    \<and> al_longitude (a_location a) \<le> longitude (sd_location d) + 0.5
    \<and> a_createdAt a \<ge> now - 60 * 60 * 1000"
  from assms(4) have "find ?P store = None"
    by (simp add: find_None_conv)
  with assms(1,2,3) show ?thesis
    by (simp add: evaluateEarthquake_def Let_def thresholds_def)
qed

lemma evaluateEarthquake_invalid:
  assumes "magnitude (sd_readings d) = Some m" "3 \<le> m"
    "alertValidation d = None"
    "\<forall>a\<in>set store. \<not> (a_type a = Earthquake \<and> a_status a = Active
        \<and> latitude (sd_location d) - 0.5 \<le> al_latitude (a_location a)
        \<and> al_latitude (a_location a) \<le> latitude (sd_location d) + 0.5
        \<and> longitude (sd_location d) - 0.5 \<le> al_longitude (a_location a)
        \<and> al_longitude (a_location a) \<le> longitude (sd_location d) + 0.5
        \<and> now - 60 * 60 * 1000 \<le> a_createdAt a)"
  shows "evaluateEarthquake now store d = (store, Inl ValidationError)"
proof -
  let ?P = "\<lambda>a. a_type a = Earthquake \<and> a_status a = Active
    \<and> al_latitude (a_location a) \<ge> latitude (sd_location d) - 0.5
    \<and> al_latitude (a_location a) \<le> latitude (sd_location d) + 0.5
    \<and> al_longitude (a_location a) \<ge> longitude (sd_location d) - 0.5
    \<and> al_longitude (a_location a) \<le> longitude (sd_location d) + 0.5
    \<and> a_createdAt a \<ge> now - 60 * 60 * 1000"
  from assms(4) have "find ?P store = None"
    by (simp add: find_None_conv)
  with assms(1,2,3) show ?thesis
    by (simp add: evaluateEarthquake_def Let_def thresholds_def)
qed

lemma evaluateEarthquake_shapes:
  "evaluateEarthquake now store d = (store, Inr None)
   \<or> (evaluateEarthquake now store d = (store, Inl ValidationError) \<and> alertValidation d = None)
   \<or> (\<exists>al m. evaluateEarthquake now store d = (store @ [al], Inr (Some al))
        \<and> magnitude (sd_readings d) = Some m \<and> 3 \<le> m \<and> a_type al = Earthquake
        \<and> a_severity al = (if 7 \<le> m then Critical else if 6 \<le> m then High
             else if 4.5 \<le> m then Medium else Low))"
proof (cases "magnitude (sd_readings d)")
  case None
  then show ?thesis by (simp add: evaluateEarthquake_absent)
next
  case (Some m)
  show ?thesis
  proof (cases "m < 3")
    case True
    with Some show ?thesis by (simp add: evaluateEarthquake_below)
  next
    case False
    then have m: "3 \<le> m" by simp
    show ?thesis
    proof (cases "\<exists>a\<in>set store. a_type a = Earthquake \<and> a_status a = Active
        \<and> latitude (sd_location d) - 0.5 \<le> al_latitude (a_location a)
        \<and> al_latitude (a_location a) \<le> latitude (sd_location d) + 0.5
        \<and> longitude (sd_location d) - 0.5 \<le> al_longitude (a_location a)
        \<and> al_longitude (a_location a) \<le> longitude (sd_location d) + 0.5
        \<and> now - 60 * 60 * 1000 \<le> a_createdAt a")
      case True
      then show ?thesis using evaluateEarthquake_suppress by blast
    next
      case False
      then have fresh: "\<forall>a\<in>set store. \<not> (a_type a = Earthquake \<and> a_status a = Active
        \<and> latitude (sd_location d) - 0.5 \<le> al_latitude (a_location a)
        \<and> al_latitude (a_location a) \<le> latitude (sd_location d) + 0.5
        \<and> longitude (sd_location d) - 0.5 \<le> al_longitude (a_location a)
        \<and> al_longitude (a_location a) \<le> longitude (sd_location d) + 0.5
        \<and> now - 60 * 60 * 1000 \<le> a_createdAt a)" by blast
      show ?thesis
      proof (cases "alertValidation d")
        case None
        from evaluateEarthquake_invalid[OF Some m None fresh] None show ?thesis by simp
      next
        case (Some v)
        obtain nm src where "v = (nm, src)" by (cases v)
        with Some have "alertValidation d = Some (nm, src)" by simp
        from evaluateEarthquake_admit[OF \<open>magnitude (sd_readings d) = Some m\<close> m this fresh]
          \<open>magnitude (sd_readings d) = Some m\<close> m
        show ?thesis by blast
      qed
    qed
  qed
qed

subsection \<open>Weather readings\<close>

lemma checkStorm_absent:
  "windSpeed (sd_readings d) = None \<Longrightarrow> checkStorm now d (store, r) = (store, Inr r)"
  by (simp add: checkStorm_def)

lemma checkStorm_below:
  "windSpeed (sd_readings d) = Some v \<Longrightarrow> v < 40 \<Longrightarrow> checkStorm now d (store, r) = (store, Inr r)"
  by (simp add: checkStorm_def thresholds_def)

lemma checkStorm_suppress:
  assumes "windSpeed (sd_readings d) = Some v"
    "a \<in> set store" "a_type a = (if 100 \<le> v then Cyclone else Storm)" "a_status a = Active"
    "name (sd_location d) = Some (al_name (a_location a))"
    "now - 2 * 60 * 60 * 1000 \<le> a_createdAt a"
  shows "checkStorm now d (store, r) = (store, Inr r)"
proof -
  let ?P = "\<lambda>a. a_type a = (if 100 \<le> v then Cyclone else Storm) \<and> a_status a = Active
    \<and> name (sd_location d) = Some (al_name (a_location a))
    \<and> a_createdAt a \<ge> now - 2 * 60 * 60 * 1000"
  from assms have ex: "\<exists>y. find ?P store = Some y"
    by (intro find_Some_ex[of a]) auto
  show ?thesis
  proof (cases "100 \<le> v")
    case True
    with ex assms(1) show ?thesis
      by (auto simp: checkStorm_def Let_def thresholds_def split: option.splits)
  next
    case False
    with ex assms(1) show ?thesis
      by (auto simp: checkStorm_def Let_def thresholds_def split: option.splits)
  qed
qed

lemma checkStorm_admit:
  assumes "windSpeed (sd_readings d) = Some v" "40 \<le> v"
    "alertValidation d = Some (nm, src)"
    "\<forall>a\<in>set store. \<not> (a_type a = (if 100 \<le> v then Cyclone else Storm) \<and> a_status a = Active
        \<and> name (sd_location d) = Some (al_name (a_location a))
        \<and> now - 2 * 60 * 60 * 1000 \<le> a_createdAt a)"
  shows "\<exists>al. checkStorm now d (store, r) = (store @ [al], Inr (Some al))
    \<and> a_type al = (if 100 \<le> v then Cyclone else Storm)
    \<and> a_status al = Active \<and> a_createdAt al = now
    \<and> al_name (a_location al) = nm
    \<and> a_severity al = (if 150 \<le> v then Critical else if 100 \<le> v then High
         else if 70 \<le> v then Medium else Low)"
proof -
  let ?P = "\<lambda>a. a_type a = (if 100 \<le> v then Cyclone else Storm) \<and> a_status a = Active
    \<and> name (sd_location d) = Some (al_name (a_location a))
    \<and> a_createdAt a \<ge> now - 2 * 60 * 60 * 1000"
  from assms(4) have none: "find ?P store = None"
    by (simp add: find_None_conv)
  show ?thesis
  proof (cases "100 \<le> v")
    case True
    with none assms(1,2,3) show ?thesis
      by (simp add: checkStorm_def Let_def thresholds_def)
  next
    case False
    with none assms(1,2,3) show ?thesis
      by (simp add: checkStorm_def Let_def thresholds_def)
  qed
qed

lemma checkStorm_invalid:
  assumes "windSpeed (sd_readings d) = Some v" "40 \<le> v"
    "alertValidation d = None"
    "\<forall>a\<in>set store. \<not> (a_type a = (if 100 \<le> v then Cyclone else Storm) \<and> a_status a = Active
        \<and> name (sd_location d) = Some (al_name (a_location a))
        \<and> now - 2 * 60 * 60 * 1000 \<le> a_createdAt a)"
  shows "checkStorm now d (store, r) = (store, Inl ValidationError)"
proof -
  let ?P = "\<lambda>a. a_type a = (if 100 \<le> v then Cyclone else Storm) \<and> a_status a = Active
    \<and> name (sd_location d) = Some (al_name (a_location a))
    \<and> a_createdAt a \<ge> now - 2 * 60 * 60 * 1000"
  from assms(4) have none: "find ?P store = None"
    by (simp add: find_None_conv)
  show ?thesis
  proof (cases "100 \<le> v")
    case True
    with none assms(1,2,3) show ?thesis
      by (simp add: checkStorm_def Let_def thresholds_def)
  next
    case False
    with none assms(1,2,3) show ?thesis
      by (simp add: checkStorm_def Let_def thresholds_def)
  qed
qed

lemma checkStorm_cases:
  "checkStorm now d (store, r) = (store, Inr r)
   \<or> (checkStorm now d (store, r) = (store, Inl ValidationError) \<and> alertValidation d = None)
   \<or> (\<exists>al v. checkStorm now d (store, r) = (store @ [al], Inr (Some al))
        \<and> alertValidation d \<noteq> None
        \<and> windSpeed (sd_readings d) = Some v \<and> 40 \<le> v
        \<and> a_type al = (if 100 \<le> v then Cyclone else Storm)
        \<and> a_severity al = (if 150 \<le> v then Critical else if 100 \<le> v then High
             else if 70 \<le> v then Medium else Low))"
proof (cases "windSpeed (sd_readings d)")
  case None
  then show ?thesis by (simp add: checkStorm_absent)
next
  case (Some v)
  note ws = Some
  show ?thesis
  proof (cases "v < 40")
    case True
    with ws show ?thesis by (simp add: checkStorm_below)
  next
    case False
    then have v: "40 \<le> v" by simp
    show ?thesis
    proof (cases "\<exists>a\<in>set store. a_type a = (if 100 \<le> v then Cyclone else Storm)
        \<and> a_status a = Active \<and> name (sd_location d) = Some (al_name (a_location a))
        \<and> now - 2 * 60 * 60 * 1000 \<le> a_createdAt a")
      case True
      then show ?thesis using checkStorm_suppress[OF ws] by blast
    next
      case False
      then have fresh: "\<forall>a\<in>set store. \<not> (a_type a = (if 100 \<le> v then Cyclone else Storm)
        \<and> a_status a = Active \<and> name (sd_location d) = Some (al_name (a_location a))
        \<and> now - 2 * 60 * 60 * 1000 \<le> a_createdAt a)" by blast
      show ?thesis
      proof (cases "alertValidation d")
        case None
        from checkStorm_invalid[OF ws v None fresh] None show ?thesis by simp
      next
        case (Some p)
        obtain nm src where "p = (nm, src)" by (cases p)
        with Some have val: "alertValidation d = Some (nm, src)" by simp
        from checkStorm_admit[OF ws v val fresh, of r] ws v val show ?thesis by auto
      qed
    qed
  qed
qed

lemma checkHeatwave_absent:
  "temperature (sd_readings d) = None \<Longrightarrow> checkHeatwave now d (store, r) = (store, Inr r)"
  by (simp add: checkHeatwave_def)

lemma checkHeatwave_below:
  "temperature (sd_readings d) = Some tp \<Longrightarrow> tp < 42 \<Longrightarrow> checkHeatwave now d (store, r) = (store, Inr r)"
  by (simp add: checkHeatwave_def thresholds_def)

lemma checkHeatwave_suppress:
  assumes "a \<in> set store" "a_type a = Heatwave" "a_status a = Active"
    "name (sd_location d) = Some (al_name (a_location a))"
    "now - 6 * 60 * 60 * 1000 \<le> a_createdAt a"
  shows "checkHeatwave now d (store, r) = (store, Inr r)"
proof -
  let ?P = "\<lambda>a. a_type a = Heatwave \<and> a_status a = Active
    \<and> name (sd_location d) = Some (al_name (a_location a))
    \<and> a_createdAt a \<ge> now - 6 * 60 * 60 * 1000"
  from assms have "\<exists>y. find ?P store = Some y"
    by (intro find_Some_ex[of a]) auto
  then show ?thesis
    by (auto simp: checkHeatwave_def Let_def split: option.splits)
qed

lemma checkHeatwave_admit:
  assumes "temperature (sd_readings d) = Some tp" "42 \<le> tp"
    "alertValidation d = Some (nm, src)"
    "\<forall>a\<in>set store. \<not> (a_type a = Heatwave \<and> a_status a = Active
        \<and> name (sd_location d) = Some (al_name (a_location a))
        \<and> now - 6 * 60 * 60 * 1000 \<le> a_createdAt a)"
  shows "\<exists>al. checkHeatwave now d (store, r) = (store @ [al], Inr (Some al))
    \<and> a_type al = Heatwave \<and> a_status al = Active \<and> a_createdAt al = now
    \<and> al_name (a_location al) = nm
    \<and> a_severity al = (if 45 \<le> tp then Critical else High)"
proof -
  let ?P = "\<lambda>a. a_type a = Heatwave \<and> a_status a = Active
    \<and> name (sd_location d) = Some (al_name (a_location a))
    \<and> a_createdAt a \<ge> now - 6 * 60 * 60 * 1000"
  from assms(4) have "find ?P store = None"
    by (simp add: find_None_conv)
  with assms(1,2,3) show ?thesis
    by (simp add: checkHeatwave_def Let_def thresholds_def)
qed

lemma checkHeatwave_invalid:
  assumes "temperature (sd_readings d) = Some tp" "42 \<le> tp"
    "alertValidation d = None"
    "\<forall>a\<in>set store. \<not> (a_type a = Heatwave \<and> a_status a = Active
        \<and> name (sd_location d) = Some (al_name (a_location a))
        \<and> now - 6 * 60 * 60 * 1000 \<le> a_createdAt a)"
  shows "checkHeatwave now d (store, r) = (store, Inl ValidationError)"
proof -
  let ?P = "\<lambda>a. a_type a = Heatwave \<and> a_status a = Active
    \<and> name (sd_location d) = Some (al_name (a_location a))
    \<and> a_createdAt a \<ge> now - 6 * 60 * 60 * 1000"
  from assms(4) have "find ?P store = None"
    by (simp add: find_None_conv)
  with assms(1,2,3) show ?thesis
    by (simp add: checkHeatwave_def Let_def thresholds_def)
qed

lemma checkHeatwave_cases:
  "checkHeatwave now d (store, r) = (store, Inr r)
   \<or> (checkHeatwave now d (store, r) = (store, Inl ValidationError) \<and> alertValidation d = None)
   \<or> (\<exists>al tp. checkHeatwave now d (store, r) = (store @ [al], Inr (Some al))
        \<and> temperature (sd_readings d) = Some tp \<and> 42 \<le> tp
        \<and> a_type al = Heatwave
        \<and> a_severity al = (if 45 \<le> tp then Critical else High))"
proof (cases "temperature (sd_readings d)")
  case None
  then show ?thesis by (simp add: checkHeatwave_absent)
next
  case (Some tp)
  note t = Some
  show ?thesis
  proof (cases "tp < 42")
    case True
    with t show ?thesis by (simp add: checkHeatwave_below)
  next
    case False
    then have tp: "42 \<le> tp" by simp
    show ?thesis
    proof (cases "\<exists>a\<in>set store. a_type a = Heatwave
        \<and> a_status a = Active \<and> name (sd_location d) = Some (al_name (a_location a))
        \<and> now - 6 * 60 * 60 * 1000 \<le> a_createdAt a")
      case True
      then show ?thesis using checkHeatwave_suppress by blast
    next
      case False
      then have fresh: "\<forall>a\<in>set store. \<not> (a_type a = Heatwave
        \<and> a_status a = Active \<and> name (sd_location d) = Some (al_name (a_location a))
        \<and> now - 6 * 60 * 60 * 1000 \<le> a_createdAt a)" by blast
      show ?thesis
      proof (cases "alertValidation d")
        case None
        from checkHeatwave_invalid[OF t tp None fresh] None show ?thesis by simp
      next
        case (Some p)
        obtain nm src where "p = (nm, src)" by (cases p)
        with Some have val: "alertValidation d = Some (nm, src)" by simp
        from checkHeatwave_admit[OF t tp val fresh, of r] t tp show ?thesis by blast
      qed
    qed
  qed
qed

lemma evaluateWeather_shapes:
  "evaluateWeather now store d = (store, Inr None)
   \<or> (evaluateWeather now store d = (store, Inl ValidationError) \<and> alertValidation d = None)
   \<or> (\<exists>s. evaluateWeather now store d = (store @ [s], Inr (Some s)) \<and> isWindAlert d s)
   \<or> (\<exists>h. evaluateWeather now store d = (store @ [h], Inr (Some h)) \<and> isHeatAlert d h)
   \<or> (\<exists>s h. evaluateWeather now store d = (store @ [s, h], Inr (Some h))
         \<and> isWindAlert d s \<and> isHeatAlert d h)"
proof -
  consider (none) "checkStorm now d (store, None) = (store, Inr None)"
    | (err) "checkStorm now d (store, None) = (store, Inl ValidationError)"
        "alertValidation d = None"
    | (some) s where "checkStorm now d (store, None) = (store @ [s], Inr (Some s))"
        "isWindAlert d s" "alertValidation d \<noteq> None"
    using checkStorm_cases[of now d store None] unfolding isWindAlert_def by force
  then show ?thesis
  proof cases
    case none
    consider "checkHeatwave now d (store, None) = (store, Inr None)"
      | "checkHeatwave now d (store, None) = (store, Inl ValidationError)"
          "alertValidation d = None"
      | h where "checkHeatwave now d (store, None) = (store @ [h], Inr (Some h))" "isHeatAlert d h"
      using checkHeatwave_cases[of now d store None] unfolding isHeatAlert_def by force
    then show ?thesis
      using none by cases (auto simp: evaluateWeather_def)
  next
    case err
    then show ?thesis by (simp add: evaluateWeather_def)
  next
    case some
    consider "checkHeatwave now d (store @ [s], Some s) = (store @ [s], Inr (Some s))"
      | h where "checkHeatwave now d (store @ [s], Some s) = ((store @ [s]) @ [h], Inr (Some h))"
          "isHeatAlert d h"
      using checkHeatwave_cases[of now d "store @ [s]" "Some s"] some(3)
      unfolding isHeatAlert_def by force
    then show ?thesis
      using some by cases (auto simp: evaluateWeather_def)
  qed
qed

lemma isWindAlert_not_heat: "isWindAlert d al \<Longrightarrow> a_type al \<noteq> Heatwave"
  by (auto simp: isWindAlert_def split: option.splits if_splits)

lemma isHeatAlert_heat: "isHeatAlert d al \<Longrightarrow> a_type al = Heatwave"
  by (auto simp: isHeatAlert_def split: option.splits)

lemma evaluateWeather_wind_created:
  assumes "windSpeed (sd_readings d) = Some v"
    and "a \<in> set (drop (length store) (fst (evaluateWeather now store d)))"
    and "a_type a \<noteq> Heatwave"
  shows "40 \<le> v \<and> a_type a = (if 100 \<le> v then Cyclone else Storm)
    \<and> a_severity a = (if 150 \<le> v then Critical else if 100 \<le> v then High
         else if 70 \<le> v then Medium else Low)"
proof -
  have "isWindAlert d a"
    using evaluateWeather_shapes[of now store d] assms(2,3)
    by (auto dest: isHeatAlert_heat)
  with assms(1) show ?thesis by (simp add: isWindAlert_def)
qed

lemma evaluateWeather_heat_created:
  assumes "temperature (sd_readings d) = Some tp"
    and "a \<in> set (drop (length store) (fst (evaluateWeather now store d)))"
    and "a_type a = Heatwave"
  shows "42 \<le> tp \<and> a_severity a = (if 45 \<le> tp then Critical else High)"
proof -
  have "isHeatAlert d a"
    using evaluateWeather_shapes[of now store d] assms(2,3)
    by (auto dest: isWindAlert_not_heat)
  with assms(1) show ?thesis by (simp add: isHeatAlert_def)
qed

lemma evaluateWeather_wind_admit:
  assumes "windSpeed (sd_readings d) = Some v" "40 \<le> v"
    "alertValidation d = Some (nm, src)"
    "\<forall>a\<in>set store. \<not> (a_type a = (if 100 \<le> v then Cyclone else Storm) \<and> a_status a = Active
        \<and> name (sd_location d) = Some (al_name (a_location a))
        \<and> now - 2 * 60 * 60 * 1000 \<le> a_createdAt a)"
  shows "\<exists>al rest. fst (evaluateWeather now store d) = store @ al # rest
    \<and> a_type al = (if 100 \<le> v then Cyclone else Storm)
    \<and> a_severity al = (if 150 \<le> v then Critical else if 100 \<le> v then High
         else if 70 \<le> v then Medium else Low)
    \<and> (rest = [] \<longrightarrow> snd (evaluateWeather now store d) = Inr (Some al))
    \<and> (temperature (sd_readings d) = None
         \<or> (\<exists>tp. temperature (sd_readings d) = Some tp \<and> tp < 42) \<longrightarrow> rest = [])"
proof -
  from checkStorm_admit[OF assms, of None]
  obtain al where al: "checkStorm now d (store, None) = (store @ [al], Inr (Some al))"
    "a_type al = (if 100 \<le> v then Cyclone else Storm)"
    "a_severity al = (if 150 \<le> v then Critical else if 100 \<le> v then High
         else if 70 \<le> v then Medium else Low)"
    by blast
  from checkHeatwave_cases[of now d "store @ [al]" "Some al"] assms(3)
  consider "checkHeatwave now d (store @ [al], Some al) = (store @ [al], Inr (Some al))"
    | h tp where "checkHeatwave now d (store @ [al], Some al) = (store @ [al] @ [h], Inr (Some h))"
        "temperature (sd_readings d) = Some tp" "42 \<le> tp"
    by auto
  then show ?thesis
  proof cases
    case 1
    with al show ?thesis
      by (intro exI[of _ al] exI[of _ "[]"]) (simp add: evaluateWeather_def)
  next
    case 2
    with al show ?thesis
      by (intro exI[of _ al] exI[of _ "[h]"]) (simp add: evaluateWeather_def)
  qed
qed

lemma evaluateWeather_heat_admit:
  assumes "temperature (sd_readings d) = Some tp" "42 \<le> tp"
    "alertValidation d = Some (nm, src)"
    "\<forall>a\<in>set store. \<not> (a_type a = Heatwave \<and> a_status a = Active
        \<and> name (sd_location d) = Some (al_name (a_location a))
        \<and> now - 6 * 60 * 60 * 1000 \<le> a_createdAt a)"
  shows "\<exists>pre h. evaluateWeather now store d = (store @ pre @ [h], Inr (Some h))
    \<and> a_type h = Heatwave
    \<and> a_severity h = (if 45 \<le> tp then Critical else High)"
proof -
  from checkStorm_cases[of now d store None] assms(3)
  consider "checkStorm now d (store, None) = (store, Inr None)"
    | al and v :: real where "checkStorm now d (store, None) = (store @ [al], Inr (Some al))"
      "a_type al = (if 100 \<le> v then Cyclone else Storm)"
    by auto
  then obtain pre r where pre: "checkStorm now d (store, None) = (store @ pre, Inr r)"
    "\<forall>a\<in>set pre. a_type a \<noteq> Heatwave"
  proof cases
    case 1
    then show ?thesis by (intro that[of "[]" None]) simp_all
  next
    case 2
    then show ?thesis by (intro that[of "[al]" "Some al"]) (simp_all split: if_splits)
  qed
  from assms(4) pre(2)
  have "\<forall>a\<in>set (store @ pre). \<not> (a_type a = Heatwave \<and> a_status a = Active
        \<and> name (sd_location d) = Some (al_name (a_location a))
        \<and> now - 6 * 60 * 60 * 1000 \<le> a_createdAt a)"
    by auto
  from checkHeatwave_admit[OF assms(1,2,3) this, of r] pre(1) show ?thesis
    by (auto simp: evaluateWeather_def)
qed

lemma evaluateWeather_absent:
  assumes "windSpeed (sd_readings d) = None" "temperature (sd_readings d) = None"
  shows "evaluateWeather now store d = (store, Inr None)"
  using assms by (simp add: evaluateWeather_def checkStorm_absent checkHeatwave_absent)

lemma evaluateEarthquake_severity:
  assumes "magnitude (sd_readings d) = Some m" "snd (evaluateEarthquake now store d) = Inr (Some al)"
  shows "a_severity al = (if 7 \<le> m then Critical else if 6 \<le> m then High
             else if 4.5 \<le> m then Medium else Low)"
  using evaluateEarthquake_shapes[of now store d] assms by auto

lemma evaluateFlood_severity:
  assumes "waterLevel (sd_readings d) = Some wl" "snd (evaluateFlood now store d) = Inr (Some al)"
  shows "a_severity al = (if 12 \<le> wl then Critical else if 8 \<le> wl then High
             else if 5 \<le> wl then Medium else Low)"
  using evaluateFlood_shapes[of now store d] assms by auto

lemma evaluateDataPoint_prefix:
  "take (length store) (fst (evaluateDataPoint now store d)) = store"
proof -
  have w: "take (length store) (fst (evaluateWeather now store d)) = store"
    using evaluateWeather_shapes[of now store d] by auto
  have e: "take (length store) (fst (evaluateEarthquake now store d)) = store"
    using evaluateEarthquake_shapes[of now store d] by auto
  have f: "take (length store) (fst (evaluateFlood now store d)) = store"
    using evaluateFlood_shapes[of now store d] by auto
  from w e f show ?thesis
    by (cases "sd_type d") (simp_all add: evaluateDataPoint_def)
qed

section \<open>Deduplication of flood alerts\<close>

text \<open>
  C1. The claim that any two flood readings for the same location, both with a water
  level of at least 8 m and evaluated 10 minutes apart, persist exactly one alert fails
  on two readings whose location name is the empty string: the Alert schema requires
  the name, \<^verbatim>\<open>save\<close> throws, and neither evaluation persists an alert.
\<close>

theorem flood_empty_name_counterexample:
  "evaluateFlood 0 []
       ((exampleSensor SFlood (noReadings\<lparr>waterLevel := Some 8.5\<rparr>))
          \<lparr>sd_location := exampleLocation\<lparr>name := Some []\<rparr>\<rparr>)
     = ([], Inl ValidationError)
   \<and> evaluateFlood (10 * 60 * 1000) []
       ((exampleSensor SFlood (noReadings\<lparr>waterLevel := Some 9\<rparr>))
          \<lparr>sd_location := exampleLocation\<lparr>name := Some []\<rparr>\<rparr>)
     = ([], Inl ValidationError)"
  by (simp add: evaluateFlood_def alertValidation_def exampleSensor_def exampleLocation_def
      noReadings_def thresholds_def Let_def)

text \<open>
  C1, as amended. Two flood readings with the same location name, which is not empty,
  and with sources that the Alert schema accepts (any but \<^verbatim>\<open>satellite\<close>), both with
  a water level of at least 8 m, are evaluated 10 minutes apart. On a collection that
  holds no active flood alert for that name from the last 180 minutes, the first
  evaluation persists one active flood alert of severity high or critical, and the
  second, suppressed by that alert, returns nothing and leaves the collection as it
  is. On any collection the two evaluations together persist at most one alert, and
  afterwards the collection holds an active flood alert for that name from the last
  180 minutes.
\<close>

theorem flood_dedup_two_readings:
  assumes same: "name (sd_location d2) = name (sd_location d1)"
    and nm: "name (sd_location d1) = Some nm" "nm \<noteq> []"
    and src: "sd_source d1 \<noteq> SSatellite" "sd_source d2 \<noteq> SSatellite"
    and w1: "waterLevel (sd_readings d1) = Some w1" "8 \<le> w1"
    and w2: "waterLevel (sd_readings d2) = Some w2" "8 \<le> w2"
  shows "((\<forall>a\<in>set store. \<not> (a_type a = Flood \<and> a_status a = Active
        \<and> al_name (a_location a) = nm
        \<and> t - 180 * 60 * 1000 \<le> a_createdAt a)) \<longrightarrow>
      (\<exists>al. evaluateFlood t store d1 = (store @ [al], Inr (Some al))
        \<and> a_type al = Flood \<and> a_status al = Active
        \<and> (a_severity al = High \<or> a_severity al = Critical)
        \<and> evaluateFlood (t + 10 * 60 * 1000) (store @ [al]) d2 = (store @ [al], Inr None)))
    \<and> length (fst (evaluateFlood (t + 10 * 60 * 1000) (fst (evaluateFlood t store d1)) d2))
        \<le> length store + 1
    \<and> (\<exists>a\<in>set (fst (evaluateFlood (t + 10 * 60 * 1000) (fst (evaluateFlood t store d1)) d2)).
          a_type a = Flood \<and> a_status a = Active
          \<and> al_name (a_location a) = nm
          \<and> t + 10 * 60 * 1000 - 180 * 60 * 1000 \<le> a_createdAt a)"
proof -
  let ?t2 = "t + 10 * 60 * 1000"
  let ?fresh = "\<forall>a\<in>set store. \<not> (a_type a = Flood \<and> a_status a = Active
        \<and> al_name (a_location a) = nm
        \<and> t - 180 * 60 * 1000 \<le> a_createdAt a)"
  let ?covered = "\<lambda>s. \<exists>a\<in>set s. a_type a = Flood \<and> a_status a = Active
          \<and> al_name (a_location a) = nm
          \<and> ?t2 - 180 * 60 * 1000 \<le> a_createdAt a"
  from w1 have low1: "3 \<le> w1" by simp
  from w2 have low2: "3 \<le> w2" by simp
  from nm same have nm2: "name (sd_location d2) = Some nm" by simp
  from alertValidation_Some[OF nm src(1)] obtain s1 where v1: "alertValidation d1 = Some (nm, s1)" ..
  from alertValidation_Some[OF nm2 nm(2) src(2)] obtain s2 where v2: "alertValidation d2 = Some (nm, s2)" ..
  have first: "\<exists>al. evaluateFlood t store d1 = (store @ [al], Inr (Some al))
        \<and> a_type al = Flood \<and> a_status al = Active
        \<and> (a_severity al = High \<or> a_severity al = Critical)
        \<and> evaluateFlood ?t2 (store @ [al]) d2 = (store @ [al], Inr None)
        \<and> ?covered (store @ [al])" if fresh: ?fresh
  proof -
    from fresh nm have "\<forall>a\<in>set store. \<not> (a_type a = Flood \<and> a_status a = Active
        \<and> name (sd_location d1) = Some (al_name (a_location a))
        \<and> t - 3 * 60 * 60 * 1000 \<le> a_createdAt a)" by auto
    from evaluateFlood_admit[OF w1(1) low1 v1 this]
    obtain al where al: "evaluateFlood t store d1 = (store @ [al], Inr (Some al))"
      "a_type al = Flood" "a_status al = Active" "a_createdAt al = t"
      "al_name (a_location al) = nm"
      "a_severity al = (if 12 \<le> w1 then Critical else if 8 \<le> w1 then High
         else if 5 \<le> w1 then Medium else Low)"
      by auto
    have "evaluateFlood ?t2 (store @ [al]) d2 = (store @ [al], Inr None)"
      by (rule evaluateFlood_suppress[of al]) (use al nm2 in auto)
    moreover from al(6) w1(2) have "a_severity al = High \<or> a_severity al = Critical"
      by auto
    moreover from al have "?covered (store @ [al])" by auto
    ultimately show ?thesis using al by blast
  qed
  have second: "length (fst (evaluateFlood ?t2 store d2)) \<le> length store + 1
      \<and> ?covered (fst (evaluateFlood ?t2 store d2))"
  proof (cases "?covered store")
    case True
    then obtain a where "a \<in> set store" "a_type a = Flood" "a_status a = Active"
      "name (sd_location d2) = Some (al_name (a_location a))"
      "?t2 - 3 * 60 * 60 * 1000 \<le> a_createdAt a"
      using nm2 by auto
    then have "evaluateFlood ?t2 store d2 = (store, Inr None)"
      by (rule evaluateFlood_suppress)
    with True show ?thesis by simp
  next
    case False
    then have "\<forall>a\<in>set store. \<not> (a_type a = Flood \<and> a_status a = Active
        \<and> name (sd_location d2) = Some (al_name (a_location a))
        \<and> ?t2 - 3 * 60 * 60 * 1000 \<le> a_createdAt a)"
      using nm2 by auto
    from evaluateFlood_admit[OF w2(1) low2 v2 this]
    obtain al where "evaluateFlood ?t2 store d2 = (store @ [al], Inr (Some al))"
      "a_type al = Flood" "a_status al = Active" "a_createdAt al = ?t2"
      "al_name (a_location al) = nm"
      by auto
    then show ?thesis by auto
  qed
  show ?thesis
  proof (cases ?fresh)
    case True
    from first[OF True] obtain al where al: "evaluateFlood t store d1 = (store @ [al], Inr (Some al))"
      "a_type al = Flood" "a_status al = Active"
      "a_severity al = High \<or> a_severity al = Critical"
      "evaluateFlood ?t2 (store @ [al]) d2 = (store @ [al], Inr None)"
      "?covered (store @ [al])"
      by blast
    then have "length (fst (evaluateFlood ?t2 (fst (evaluateFlood t store d1)) d2)) \<le> length store + 1"
      "?covered (fst (evaluateFlood ?t2 (fst (evaluateFlood t store d1)) d2))"
      by simp_all
    with al show ?thesis by blast
  next
    case False
    then obtain a where "a \<in> set store" "a_type a = Flood" "a_status a = Active"
      "name (sd_location d1) = Some (al_name (a_location a))"
      "t - 3 * 60 * 60 * 1000 \<le> a_createdAt a"
      using nm by auto
    then have "evaluateFlood t store d1 = (store, Inr None)"
      by (rule evaluateFlood_suppress)
    with second False show ?thesis by simp
  qed
qed

theorem flood_dedup_two_readings_witness:
  "\<exists>al. evaluateFlood 0 [] (exampleSensor SFlood (noReadings\<lparr>waterLevel := Some 8.5\<rparr>))
       = ([al], Inr (Some al))
    \<and> a_type al = Flood \<and> a_status al = Active
    \<and> (a_severity al = High \<or> a_severity al = Critical)
    \<and> evaluateFlood (10 * 60 * 1000) [al]
         (exampleSensor SFlood (noReadings\<lparr>waterLevel := Some 9, rainfall := Some 120\<rparr>))
       = ([al], Inr None)"
  using flood_dedup_two_readings[of "exampleSensor SFlood (noReadings\<lparr>waterLevel := Some 9, rainfall := Some 120\<rparr>)"
      "exampleSensor SFlood (noReadings\<lparr>waterLevel := Some 8.5\<rparr>)" "''Ganges Basin, India''"
      "8.5" 9 "[]" 0]
  by (simp add: exampleSensor_def exampleLocation_def noReadings_def)

section \<open>Alerts created per reading\<close>

text \<open>
  C3. The claim that one reading never creates more than one alert fails on a weather
  reading with a wind speed of 50 km/h and a temperature of 43 degrees: evaluated on
  the empty collection it persists a storm alert and a heatwave alert.
\<close>

theorem weather_two_alerts_counterexample:
  "map a_type (fst (evaluateWeather 0 []
      (exampleSensor SWeather (noReadings\<lparr>windSpeed := Some 50, temperature := Some 43\<rparr>))))
   = [Storm, Heatwave]"
  by (simp add: evaluateWeather_def checkStorm_def checkHeatwave_def alertValidation_def
      exampleSensor_def exampleLocation_def noReadings_def thresholds_def Let_def)

text \<open>
  C3, as amended. Evaluating one reading only appends to the collection: at most one
  alert for an earthquake or a flood reading, at most two for a weather reading, of
  which at most one is a heatwave alert and at most one is a storm or cyclone alert.
  The alert returned, if any, is one of those created.
\<close>

theorem evaluateDataPoint_creates_at_most:
  "\<exists>new. fst (evaluateDataPoint now store d) = store @ new
     \<and> length new \<le> (if sd_type d = SWeather then 2 else 1)
     \<and> length (filter (\<lambda>a. a_type a = Heatwave) new) \<le> 1
     \<and> length (filter (\<lambda>a. a_type a \<noteq> Heatwave) new) \<le> 1
     \<and> (case snd (evaluateDataPoint now store d) of
           Inl e \<Rightarrow> {} | Inr r \<Rightarrow> set_option r) \<subseteq> set new"
proof -
  consider (w) "sd_type d = SWeather" | (e) "sd_type d = SEarthquake" | (f) "sd_type d = SFlood"
    | (o) "sd_type d \<noteq> SWeather" "sd_type d \<noteq> SEarthquake" "sd_type d \<noteq> SFlood"
    by blast
  then show ?thesis
  proof cases
    case w
    from evaluateWeather_shapes[of now store d]
    consider "evaluateWeather now store d = (store @ [], Inr None)"
      | "evaluateWeather now store d = (store @ [], Inl ValidationError)"
      | s where "evaluateWeather now store d = (store @ [s], Inr (Some s))" "a_type s \<noteq> Heatwave"
      | h where "evaluateWeather now store d = (store @ [h], Inr (Some h))" "a_type h = Heatwave"
      | s h where "evaluateWeather now store d = (store @ [s, h], Inr (Some h))"
          "a_type s \<noteq> Heatwave" "a_type h = Heatwave"
      using isWindAlert_not_heat isHeatAlert_heat by fastforce
    then show ?thesis
    proof cases
      case 1
      with w show ?thesis by (intro exI[of _ "[]"]) (simp add: evaluateDataPoint_def)
    next
      case 2
      with w show ?thesis by (intro exI[of _ "[]"]) (simp add: evaluateDataPoint_def)
    next
      case 3
      with w show ?thesis by (intro exI[of _ "[s]"]) (simp add: evaluateDataPoint_def)
    next
      case 4
      with w show ?thesis by (intro exI[of _ "[h]"]) (simp add: evaluateDataPoint_def)
    next
      case 5
      with w show ?thesis by (intro exI[of _ "[s, h]"]) (simp add: evaluateDataPoint_def)
    qed
  next
    case e
    from evaluateEarthquake_shapes[of now store d]
    consider "evaluateEarthquake now store d = (store @ [], Inr None)"
      | "evaluateEarthquake now store d = (store @ [], Inl ValidationError)"
      | al where "evaluateEarthquake now store d = (store @ [al], Inr (Some al))"
          "a_type al = Earthquake"
      by auto
    then show ?thesis
    proof cases
      case 1
      with e show ?thesis by (intro exI[of _ "[]"]) (simp add: evaluateDataPoint_def)
    next
      case 2
      with e show ?thesis by (intro exI[of _ "[]"]) (simp add: evaluateDataPoint_def)
    next
      case 3
      with e show ?thesis by (intro exI[of _ "[al]"]) (simp add: evaluateDataPoint_def)
    qed
  next
    case f
    from evaluateFlood_shapes[of now store d]
    consider "evaluateFlood now store d = (store @ [], Inr None)"
      | "evaluateFlood now store d = (store @ [], Inl ValidationError)"
      | al where "evaluateFlood now store d = (store @ [al], Inr (Some al))" "a_type al = Flood"
      by auto
    then show ?thesis
    proof cases
      case 1
      with f show ?thesis by (intro exI[of _ "[]"]) (simp add: evaluateDataPoint_def)
    next
      case 2
      with f show ?thesis by (intro exI[of _ "[]"]) (simp add: evaluateDataPoint_def)
    next
      case 3
      with f show ?thesis by (intro exI[of _ "[al]"]) (simp add: evaluateDataPoint_def)
    qed
  next
    case o
    then have "evaluateDataPoint now store d = (store, Inr None)"
      by (cases "sd_type d") (simp_all add: evaluateDataPoint_def)
    with o show ?thesis by simp
  qed
qed

theorem evaluateDataPoint_creates_at_most_witness:
  "\<exists>new. fst (evaluateDataPoint 0 []
        (exampleSensor SWeather (noReadings\<lparr>windSpeed := Some 50, temperature := Some 43\<rparr>))) = [] @ new
     \<and> length new \<le> 2
     \<and> length (filter (\<lambda>a. a_type a = Heatwave) new) \<le> 1
     \<and> length (filter (\<lambda>a. a_type a \<noteq> Heatwave) new) \<le> 1
     \<and> (case snd (evaluateDataPoint 0 []
        (exampleSensor SWeather (noReadings\<lparr>windSpeed := Some 50, temperature := Some 43\<rparr>))) of
           Inl e \<Rightarrow> {} | Inr r \<Rightarrow> set_option r) \<subseteq> set new"
  using evaluateDataPoint_creates_at_most[of 0 "[]"
      "exampleSensor SWeather (noReadings\<lparr>windSpeed := Some 50, temperature := Some 43\<rparr>)"]
  by (simp add: exampleSensor_def)

section \<open>Severity of a weather alert\<close>

text \<open>
  C4. The claim that a weather reading takes the higher of its wind and rainfall tiers
  fails on a reading with a wind speed of 45 km/h (low tier) and a rainfall of 160 mm
  (above the critical boundary of the rainfall table): its storm alert has severity
  low.
\<close>

theorem rainfall_tier_ignored_counterexample:
  "critical (th_rainfall thresholds) \<le> 160 \<and> 45 < medium (th_windSpeed thresholds)
   \<and> map a_severity (fst (evaluateWeather 0 []
        (exampleSensor SWeather (noReadings\<lparr>windSpeed := Some 45, rainfall := Some 160\<rparr>))))
     = [Low]"
  by (simp add: evaluateWeather_def checkStorm_def checkHeatwave_def alertValidation_def
      exampleSensor_def exampleLocation_def noReadings_def thresholds_def Let_def)

text \<open>
  C4, as amended. The severity of a storm or cyclone alert is the tier that the wind
  speed alone reaches in the wind-speed table, and the severity of a heatwave alert the
  tier that the temperature alone reaches; the rainfall table is never consulted.
  Whatever the rainfall \<open>rf\<close> of the reading is, every alert created that is not a
  heatwave alert has the wind-speed tier and every heatwave alert the temperature
  tier. Such an alert is created when the measurement reaches its lowest boundary
  (40 km/h, 42 degrees), the reading has a location name that is not empty and a
  source that the Alert schema accepts, and no active alert of the same type and
  location name from the lookback window (two hours, six hours) exists.
\<close>

theorem weather_severity_by_wind_alone:
  "(windSpeed (sd_readings d) = Some v \<longrightarrow>
      (\<forall>a\<in>set (drop (length store)
            (fst (evaluateWeather now store (d\<lparr>sd_readings := (sd_readings d)\<lparr>rainfall := rf\<rparr>\<rparr>)))).
          a_type a \<noteq> Heatwave \<longrightarrow>
          a_severity a = (if 150 \<le> v then Critical else if 100 \<le> v then High
            else if 70 \<le> v then Medium else Low))
      \<and> (40 \<le> v \<and> name (sd_location d) = Some nm \<and> nm \<noteq> [] \<and> sd_source d \<noteq> SSatellite
          \<and> (\<forall>a\<in>set store. \<not> (a_type a = (if 100 \<le> v then Cyclone else Storm)
            \<and> a_status a = Active \<and> al_name (a_location a) = nm
            \<and> now - 2 * 60 * 60 * 1000 \<le> a_createdAt a)) \<longrightarrow>
        (\<exists>al rest. fst (evaluateWeather now store (d\<lparr>sd_readings := (sd_readings d)\<lparr>rainfall := rf\<rparr>\<rparr>))
            = store @ al # rest
          \<and> a_type al \<noteq> Heatwave
          \<and> a_severity al = (if 150 \<le> v then Critical else if 100 \<le> v then High
            else if 70 \<le> v then Medium else Low))))
   \<and> (temperature (sd_readings d) = Some tp \<longrightarrow>
      (\<forall>a\<in>set (drop (length store)
            (fst (evaluateWeather now store (d\<lparr>sd_readings := (sd_readings d)\<lparr>rainfall := rf\<rparr>\<rparr>)))).
          a_type a = Heatwave \<longrightarrow>
          a_severity a = (if 45 \<le> tp then Critical else High))
      \<and> (42 \<le> tp \<and> name (sd_location d) = Some nm \<and> nm \<noteq> [] \<and> sd_source d \<noteq> SSatellite
          \<and> (\<forall>a\<in>set store. \<not> (a_type a = Heatwave
            \<and> a_status a = Active \<and> al_name (a_location a) = nm
            \<and> now - 6 * 60 * 60 * 1000 \<le> a_createdAt a)) \<longrightarrow>
        (\<exists>pre h. evaluateWeather now store (d\<lparr>sd_readings := (sd_readings d)\<lparr>rainfall := rf\<rparr>\<rparr>)
            = (store @ pre @ [h], Inr (Some h))
          \<and> a_type h = Heatwave
          \<and> a_severity h = (if 45 \<le> tp then Critical else High))))"
proof -
  let ?d = "d\<lparr>sd_readings := (sd_readings d)\<lparr>rainfall := rf\<rparr>\<rparr>"
  have loc: "sd_location ?d = sd_location d" by simp
  have val: "alertValidation ?d = alertValidation d"
    by (simp add: alertValidation_def split: option.split)
  have wind: "(\<forall>a\<in>set (drop (length store) (fst (evaluateWeather now store ?d))).
          a_type a \<noteq> Heatwave \<longrightarrow>
          a_severity a = (if 150 \<le> v then Critical else if 100 \<le> v then High
            else if 70 \<le> v then Medium else Low))
      \<and> (40 \<le> v \<and> name (sd_location d) = Some nm \<and> nm \<noteq> [] \<and> sd_source d \<noteq> SSatellite
          \<and> (\<forall>a\<in>set store. \<not> (a_type a = (if 100 \<le> v then Cyclone else Storm)
            \<and> a_status a = Active \<and> al_name (a_location a) = nm
            \<and> now - 2 * 60 * 60 * 1000 \<le> a_createdAt a)) \<longrightarrow>
        (\<exists>al rest. fst (evaluateWeather now store ?d) = store @ al # rest
          \<and> a_type al \<noteq> Heatwave
          \<and> a_severity al = (if 150 \<le> v then Critical else if 100 \<le> v then High
            else if 70 \<le> v then Medium else Low)))"
    if "windSpeed (sd_readings d) = Some v"
  proof (intro conjI ballI impI)
    from that have ws: "windSpeed (sd_readings ?d) = Some v" by simp
    {
      fix a
      assume "a \<in> set (drop (length store) (fst (evaluateWeather now store ?d)))"
        "a_type a \<noteq> Heatwave"
      with evaluateWeather_wind_created[OF ws]
      show "a_severity a = (if 150 \<le> v then Critical else if 100 \<le> v then High
              else if 70 \<le> v then Medium else Low)"
        by blast
    }
    assume h: "40 \<le> v \<and> name (sd_location d) = Some nm \<and> nm \<noteq> [] \<and> sd_source d \<noteq> SSatellite
          \<and> (\<forall>a\<in>set store. \<not> (a_type a = (if 100 \<le> v then Cyclone else Storm)
            \<and> a_status a = Active \<and> al_name (a_location a) = nm
            \<and> now - 2 * 60 * 60 * 1000 \<le> a_createdAt a))"
    then obtain src where v: "alertValidation ?d = Some (nm, src)"
      using alertValidation_Some[of d nm] val by auto
    from h have fresh: "\<forall>a\<in>set store. \<not> (a_type a = (if 100 \<le> v then Cyclone else Storm)
            \<and> a_status a = Active \<and> name (sd_location ?d) = Some (al_name (a_location a))
            \<and> now - 2 * 60 * 60 * 1000 \<le> a_createdAt a)"
      unfolding loc by auto
    from evaluateWeather_wind_admit[OF ws _ v fresh] h
    obtain al rest where "fst (evaluateWeather now store ?d) = store @ al # rest"
      "a_type al = (if 100 \<le> v then Cyclone else Storm)"
      "a_severity al = (if 150 \<le> v then Critical else if 100 \<le> v then High
         else if 70 \<le> v then Medium else Low)"
      by blast
    then show "\<exists>al rest. fst (evaluateWeather now store ?d) = store @ al # rest
          \<and> a_type al \<noteq> Heatwave
          \<and> a_severity al = (if 150 \<le> v then Critical else if 100 \<le> v then High
            else if 70 \<le> v then Medium else Low)"
      by (intro exI[of _ al] exI[of _ rest]) (simp split: if_splits)
  qed
  have heat: "(\<forall>a\<in>set (drop (length store) (fst (evaluateWeather now store ?d))).
          a_type a = Heatwave \<longrightarrow>
          a_severity a = (if 45 \<le> tp then Critical else High))
      \<and> (42 \<le> tp \<and> name (sd_location d) = Some nm \<and> nm \<noteq> [] \<and> sd_source d \<noteq> SSatellite
          \<and> (\<forall>a\<in>set store. \<not> (a_type a = Heatwave
            \<and> a_status a = Active \<and> al_name (a_location a) = nm
            \<and> now - 6 * 60 * 60 * 1000 \<le> a_createdAt a)) \<longrightarrow>
        (\<exists>pre h. evaluateWeather now store ?d = (store @ pre @ [h], Inr (Some h))
          \<and> a_type h = Heatwave
          \<and> a_severity h = (if 45 \<le> tp then Critical else High)))"
    if "temperature (sd_readings d) = Some tp"
  proof (intro conjI ballI impI)
    from that have t: "temperature (sd_readings ?d) = Some tp" by simp
    {
      fix a
      assume "a \<in> set (drop (length store) (fst (evaluateWeather now store ?d)))"
        "a_type a = Heatwave"
      with evaluateWeather_heat_created[OF t]
      show "a_severity a = (if 45 \<le> tp then Critical else High)"
        by blast
    }
    assume h: "42 \<le> tp \<and> name (sd_location d) = Some nm \<and> nm \<noteq> [] \<and> sd_source d \<noteq> SSatellite
          \<and> (\<forall>a\<in>set store. \<not> (a_type a = Heatwave
            \<and> a_status a = Active \<and> al_name (a_location a) = nm
            \<and> now - 6 * 60 * 60 * 1000 \<le> a_createdAt a))"
    then obtain src where v: "alertValidation ?d = Some (nm, src)"
      using alertValidation_Some[of d nm] val by auto
    from h have fresh: "\<forall>a\<in>set store. \<not> (a_type a = Heatwave
            \<and> a_status a = Active \<and> name (sd_location ?d) = Some (al_name (a_location a))
            \<and> now - 6 * 60 * 60 * 1000 \<le> a_createdAt a)"
      unfolding loc by auto
    from evaluateWeather_heat_admit[OF t _ v fresh] h
    show "\<exists>pre h. evaluateWeather now store ?d = (store @ pre @ [h], Inr (Some h))
          \<and> a_type h = Heatwave
          \<and> a_severity h = (if 45 \<le> tp then Critical else High)"
      by blast
  qed
  from wind heat show ?thesis by blast
qed

theorem weather_severity_by_wind_alone_witness:
  "(\<exists>al rest. fst (evaluateWeather 0 []
       (exampleSensor SWeather (noReadings\<lparr>windSpeed := Some 45, temperature := Some 46, rainfall := Some 160\<rparr>)))
         = al # rest
     \<and> a_type al \<noteq> Heatwave \<and> a_severity al = Low)
   \<and> (\<exists>pre h. evaluateWeather 0 []
       (exampleSensor SWeather (noReadings\<lparr>windSpeed := Some 45, temperature := Some 46, rainfall := Some 160\<rparr>))
         = (pre @ [h], Inr (Some h))
     \<and> a_type h = Heatwave \<and> a_severity h = Critical)"
  using weather_severity_by_wind_alone[of
      "exampleSensor SWeather (noReadings\<lparr>windSpeed := Some 45, temperature := Some 46\<rparr>)"
      45 "[]" 0 "Some 160" "''Ganges Basin, India''" 46]
  by (simp add: exampleSensor_def exampleLocation_def noReadings_def)

section \<open>Hazard type of a wind alert\<close>

text \<open>
  C5. The claim that the candidate of every weather reading with a wind speed of at
  least 40 km/h is a cyclone or a storm alert fails on a reading with a wind speed of
  140 km/h and a temperature of 43 degrees: the alert that the evaluation returns is
  the heatwave alert.
\<close>

theorem wind_candidate_replaced_counterexample:
  "map_sum id (map_option a_type) (snd (evaluateWeather 0 []
      (exampleSensor SWeather (noReadings\<lparr>windSpeed := Some 140, temperature := Some 43\<rparr>))))
   = Inr (Some Heatwave)"
  by (simp add: evaluateWeather_def checkStorm_def checkHeatwave_def alertValidation_def
      exampleSensor_def exampleLocation_def noReadings_def thresholds_def Let_def)

text \<open>
  C5, as amended. For a weather reading with a wind speed of at least 40 km/h, every
  alert created that is not a heatwave alert is a cyclone alert exactly when the wind
  speed is at least 100 km/h and a storm alert exactly when it is below. When the
  reading has a location name that is not empty and a source that the Alert schema
  accepts, and no active alert of that type and location name from the last two hours
  exists, such an alert is created, first among the alerts of the reading; it is the
  alert returned when it is the only one created, which is so when the temperature is
  absent or below 42 degrees. At 140 km/h it is a cyclone alert of severity high.
\<close>

theorem wind_speed_selects_hazard_type:
  assumes "windSpeed (sd_readings d) = Some v" "40 \<le> v"
  shows "(\<forall>a\<in>set (drop (length store) (fst (evaluateWeather now store d))).
          a_type a \<noteq> Heatwave \<longrightarrow>
            (a_type a = Cyclone \<longleftrightarrow> 100 \<le> v) \<and> (a_type a = Storm \<longleftrightarrow> v < 100))
    \<and> (name (sd_location d) = Some nm \<and> nm \<noteq> [] \<and> sd_source d \<noteq> SSatellite
        \<and> (\<forall>a\<in>set store. \<not> (a_type a = (if 100 \<le> v then Cyclone else Storm)
            \<and> a_status a = Active \<and> al_name (a_location a) = nm
            \<and> now - 2 * 60 * 60 * 1000 \<le> a_createdAt a)) \<longrightarrow>
        (\<exists>al rest. fst (evaluateWeather now store d) = store @ al # rest
          \<and> (a_type al = Cyclone \<longleftrightarrow> 100 \<le> v) \<and> (a_type al = Storm \<longleftrightarrow> v < 100)
          \<and> (v = 140 \<longrightarrow> a_type al = Cyclone \<and> a_severity al = High)
          \<and> (rest = [] \<longrightarrow> snd (evaluateWeather now store d) = Inr (Some al))
          \<and> (temperature (sd_readings d) = None
               \<or> (\<exists>tp. temperature (sd_readings d) = Some tp \<and> tp < 42) \<longrightarrow> rest = [])))"
proof (intro conjI ballI impI)
  fix a
  assume a: "a \<in> set (drop (length store) (fst (evaluateWeather now store d)))"
    "a_type a \<noteq> Heatwave"
  from evaluateWeather_wind_created[OF assms(1) a]
  have ty: "a_type a = (if 100 \<le> v then Cyclone else Storm)" by blast
  from ty show "a_type a = Cyclone \<longleftrightarrow> 100 \<le> v" by simp
  from ty show "a_type a = Storm \<longleftrightarrow> v < 100" by (simp add: not_le)
next
  assume h: "name (sd_location d) = Some nm \<and> nm \<noteq> [] \<and> sd_source d \<noteq> SSatellite
        \<and> (\<forall>a\<in>set store. \<not> (a_type a = (if 100 \<le> v then Cyclone else Storm)
            \<and> a_status a = Active \<and> al_name (a_location a) = nm
            \<and> now - 2 * 60 * 60 * 1000 \<le> a_createdAt a))"
  then obtain src where val: "alertValidation d = Some (nm, src)"
    using alertValidation_Some[of d nm] by auto
  from h have fresh: "\<forall>a\<in>set store. \<not> (a_type a = (if 100 \<le> v then Cyclone else Storm)
            \<and> a_status a = Active \<and> name (sd_location d) = Some (al_name (a_location a))
            \<and> now - 2 * 60 * 60 * 1000 \<le> a_createdAt a)"
    by auto
  from evaluateWeather_wind_admit[OF assms val fresh]
  obtain al rest where al: "fst (evaluateWeather now store d) = store @ al # rest"
    "a_type al = (if 100 \<le> v then Cyclone else Storm)"
    "a_severity al = (if 150 \<le> v then Critical else if 100 \<le> v then High
         else if 70 \<le> v then Medium else Low)"
    "rest = [] \<longrightarrow> snd (evaluateWeather now store d) = Inr (Some al)"
    "temperature (sd_readings d) = None
         \<or> (\<exists>tp. temperature (sd_readings d) = Some tp \<and> tp < 42) \<longrightarrow> rest = []"
    by blast
  show "\<exists>al rest. fst (evaluateWeather now store d) = store @ al # rest
          \<and> (a_type al = Cyclone \<longleftrightarrow> 100 \<le> v) \<and> (a_type al = Storm \<longleftrightarrow> v < 100)
          \<and> (v = 140 \<longrightarrow> a_type al = Cyclone \<and> a_severity al = High)
          \<and> (rest = [] \<longrightarrow> snd (evaluateWeather now store d) = Inr (Some al))
          \<and> (temperature (sd_readings d) = None
               \<or> (\<exists>tp. temperature (sd_readings d) = Some tp \<and> tp < 42) \<longrightarrow> rest = [])"
    using al by (intro exI[of _ al] exI[of _ rest]) (simp add: not_le)
qed

theorem wind_speed_selects_hazard_type_witness:
  "\<exists>al. evaluateWeather 0 [] (exampleSensor SWeather (noReadings\<lparr>windSpeed := Some 140\<rparr>))
       = ([al], Inr (Some al))
     \<and> a_type al = Cyclone \<and> a_type al \<noteq> Storm \<and> a_severity al = High"
proof -
  from wind_speed_selects_hazard_type[of "exampleSensor SWeather (noReadings\<lparr>windSpeed := Some 140\<rparr>)"
      140 "[]" 0 "''Ganges Basin, India''"]
  obtain al rest where al: "fst (evaluateWeather 0 [] (exampleSensor SWeather (noReadings\<lparr>windSpeed := Some 140\<rparr>)))
       = al # rest" "a_type al = Cyclone" "a_type al \<noteq> Storm" "a_severity al = High"
    "rest = [] \<longrightarrow> snd (evaluateWeather 0 [] (exampleSensor SWeather (noReadings\<lparr>windSpeed := Some 140\<rparr>)))
       = Inr (Some al)" "rest = []"
    by (simp add: exampleSensor_def exampleLocation_def noReadings_def) blast
  then have "evaluateWeather 0 [] (exampleSensor SWeather (noReadings\<lparr>windSpeed := Some 140\<rparr>))
       = ([al], Inr (Some al))"
    by (simp add: prod_eq_iff)
  with al show ?thesis by blast
qed

section \<open>Tier boundaries and missing measurements\<close>

text \<open>
  C6. The claim that a measurement equal to any configured tier boundary is classified
  into that tier fails for the rainfall table: a reading with a rainfall of 150 mm, the
  critical boundary of that table, gets a storm alert of severity low from its wind
  speed of 45 km/h, and no alert at all without a wind speed.
\<close>

theorem rainfall_boundary_counterexample:
  "critical (th_rainfall thresholds) = 150
   \<and> map (\<lambda>a. (a_type a, a_severity a)) (fst (evaluateWeather 0 []
        (exampleSensor SWeather (noReadings\<lparr>windSpeed := Some 45, rainfall := Some 150\<rparr>))))
     = [(Storm, Low)]
   \<and> evaluateWeather 0 [] (exampleSensor SWeather (noReadings\<lparr>rainfall := Some 150\<rparr>))
     = ([], Inr None)"
  by (simp add: evaluateWeather_def checkStorm_def checkHeatwave_def alertValidation_def
      exampleSensor_def exampleLocation_def noReadings_def thresholds_def Let_def)

text \<open>
  C6, as amended. Tier boundaries are inclusive for the four measurements that are
  compared with a table: magnitude, water level, wind speed and temperature. For each
  boundary \<open>b\<close> of these tables, a reading whose measurement is exactly \<open>b\<close> gets the
  severity \<open>s\<close> of the tier that starts at \<open>b\<close>: on the empty collection the alert is
  created with severity \<open>s\<close>, when the reading has a location name that is not empty
  and a source that the Alert schema accepts, and on any collection every alert created
  for that measurement has severity \<open>s\<close> (magnitude 6.0 gives high, 7.0 critical). A
  reading without the measurement creates no alert for it: no earthquake alert without
  a magnitude, no flood alert without a water level, no storm or cyclone alert without
  a wind speed, no heatwave alert without a temperature.
\<close>

theorem tier_boundaries_inclusive:
  "(\<forall>(b, s)\<in>set [(low (th_earthquake thresholds), Low), (medium (th_earthquake thresholds), Medium),
        (high (th_earthquake thresholds), High), (critical (th_earthquake thresholds), Critical)].
      magnitude (sd_readings d) = Some b \<longrightarrow>
        (name (sd_location d) = Some nm \<and> nm \<noteq> [] \<and> sd_source d \<noteq> SSatellite \<longrightarrow>
           (\<exists>al. evaluateEarthquake now [] d = ([al], Inr (Some al)) \<and> a_severity al = s))
        \<and> (\<forall>al. snd (evaluateEarthquake now store d) = Inr (Some al) \<longrightarrow> a_severity al = s))
   \<and> (\<forall>(b, s)\<in>set [(low (th_waterLevel thresholds), Low), (medium (th_waterLevel thresholds), Medium),
        (high (th_waterLevel thresholds), High), (critical (th_waterLevel thresholds), Critical)].
      waterLevel (sd_readings d) = Some b \<longrightarrow>
        (name (sd_location d) = Some nm \<and> nm \<noteq> [] \<and> sd_source d \<noteq> SSatellite \<longrightarrow>
           (\<exists>al. evaluateFlood now [] d = ([al], Inr (Some al)) \<and> a_severity al = s))
        \<and> (\<forall>al. snd (evaluateFlood now store d) = Inr (Some al) \<longrightarrow> a_severity al = s))
   \<and> (\<forall>(b, s)\<in>set [(low (th_windSpeed thresholds), Low), (medium (th_windSpeed thresholds), Medium),
        (high (th_windSpeed thresholds), High), (critical (th_windSpeed thresholds), Critical)].
      windSpeed (sd_readings d) = Some b \<longrightarrow>
        (name (sd_location d) = Some nm \<and> nm \<noteq> [] \<and> sd_source d \<noteq> SSatellite \<longrightarrow>
           (\<exists>al rest. fst (evaluateWeather now [] d) = al # rest \<and> a_type al \<noteq> Heatwave
              \<and> a_severity al = s))
        \<and> (\<forall>al\<in>set (drop (length store) (fst (evaluateWeather now store d))).
             a_type al \<noteq> Heatwave \<longrightarrow> a_severity al = s))
   \<and> (\<forall>(b, s)\<in>set [(heatwave (th_temperature thresholds), High),
        (extreme (th_temperature thresholds), Critical)].
      temperature (sd_readings d) = Some b \<longrightarrow>
        (name (sd_location d) = Some nm \<and> nm \<noteq> [] \<and> sd_source d \<noteq> SSatellite \<longrightarrow>
           (\<exists>pre al. evaluateWeather now [] d = (pre @ [al], Inr (Some al)) \<and> a_type al = Heatwave
              \<and> a_severity al = s))
        \<and> (\<forall>al\<in>set (drop (length store) (fst (evaluateWeather now store d))).
             a_type al = Heatwave \<longrightarrow> a_severity al = s))
   \<and> (magnitude (sd_readings d) = None \<longrightarrow> evaluateEarthquake now store d = (store, Inr None))
   \<and> (waterLevel (sd_readings d) = None \<longrightarrow> evaluateFlood now store d = (store, Inr None))
   \<and> (windSpeed (sd_readings d) = None \<longrightarrow>
        (\<forall>al\<in>set (drop (length store) (fst (evaluateWeather now store d))). a_type al = Heatwave))
   \<and> (temperature (sd_readings d) = None \<longrightarrow>
        (\<forall>al\<in>set (drop (length store) (fst (evaluateWeather now store d))). a_type al \<noteq> Heatwave))
   \<and> (windSpeed (sd_readings d) = None \<and> temperature (sd_readings d) = None \<longrightarrow>
        evaluateWeather now store d = (store, Inr None))"
proof (intro conjI)
  let ?valid = "name (sd_location d) = Some nm \<and> nm \<noteq> [] \<and> sd_source d \<noteq> SSatellite"
  have src: "\<exists>src. alertValidation d = Some (nm, src)" if ?valid
    using that alertValidation_Some[of d nm] by blast
  show "\<forall>(b, s)\<in>set [(low (th_earthquake thresholds), Low), (medium (th_earthquake thresholds), Medium),
        (high (th_earthquake thresholds), High), (critical (th_earthquake thresholds), Critical)].
      magnitude (sd_readings d) = Some b \<longrightarrow>
        (?valid \<longrightarrow>
           (\<exists>al. evaluateEarthquake now [] d = ([al], Inr (Some al)) \<and> a_severity al = s))
        \<and> (\<forall>al. snd (evaluateEarthquake now store d) = Inr (Some al) \<longrightarrow> a_severity al = s)"
  proof (intro ballI, clarify)
    fix b s assume bs: "(b, s) \<in> set [(low (th_earthquake thresholds), Low),
        (medium (th_earthquake thresholds), Medium),
        (high (th_earthquake thresholds), High), (critical (th_earthquake thresholds), Critical)]"
      and m: "magnitude (sd_readings d) = Some b"
    from bs have b: "3 \<le> b" and s: "s = (if 7 \<le> b then Critical else if 6 \<le> b then High
             else if 4.5 \<le> b then Medium else Low)"
      by (auto simp: thresholds_def)
    have "\<exists>al. evaluateEarthquake now [] d = ([al], Inr (Some al)) \<and> a_severity al = s" if ?valid
    proof -
      from src[OF that] obtain sr where "alertValidation d = Some (nm, sr)" ..
      from evaluateEarthquake_admit[OF m b this, of "[]" now] show ?thesis
        unfolding s by auto
    qed
    moreover from evaluateEarthquake_severity[OF m, of now store]
    have "\<forall>al. snd (evaluateEarthquake now store d) = Inr (Some al) \<longrightarrow> a_severity al = s"
      unfolding s by blast
    ultimately show "(?valid \<longrightarrow>
           (\<exists>al. evaluateEarthquake now [] d = ([al], Inr (Some al)) \<and> a_severity al = s))
        \<and> (\<forall>al. snd (evaluateEarthquake now store d) = Inr (Some al) \<longrightarrow> a_severity al = s)"
      by blast
  qed
  show "\<forall>(b, s)\<in>set [(low (th_waterLevel thresholds), Low), (medium (th_waterLevel thresholds), Medium),
        (high (th_waterLevel thresholds), High), (critical (th_waterLevel thresholds), Critical)].
      waterLevel (sd_readings d) = Some b \<longrightarrow>
        (?valid \<longrightarrow>
           (\<exists>al. evaluateFlood now [] d = ([al], Inr (Some al)) \<and> a_severity al = s))
        \<and> (\<forall>al. snd (evaluateFlood now store d) = Inr (Some al) \<longrightarrow> a_severity al = s)"
  proof (intro ballI, clarify)
    fix b s assume bs: "(b, s) \<in> set [(low (th_waterLevel thresholds), Low),
        (medium (th_waterLevel thresholds), Medium),
        (high (th_waterLevel thresholds), High), (critical (th_waterLevel thresholds), Critical)]"
      and m: "waterLevel (sd_readings d) = Some b"
    from bs have b: "3 \<le> b" and s: "s = (if 12 \<le> b then Critical else if 8 \<le> b then High
             else if 5 \<le> b then Medium else Low)"
      by (auto simp: thresholds_def)
    have "\<exists>al. evaluateFlood now [] d = ([al], Inr (Some al)) \<and> a_severity al = s" if ?valid
    proof -
      from src[OF that] obtain sr where "alertValidation d = Some (nm, sr)" ..
      from evaluateFlood_admit[OF m b this, of "[]" now] show ?thesis
        unfolding s by auto
    qed
    moreover from evaluateFlood_severity[OF m, of now store]
    have "\<forall>al. snd (evaluateFlood now store d) = Inr (Some al) \<longrightarrow> a_severity al = s"
      unfolding s by blast
    ultimately show "(?valid \<longrightarrow>
           (\<exists>al. evaluateFlood now [] d = ([al], Inr (Some al)) \<and> a_severity al = s))
        \<and> (\<forall>al. snd (evaluateFlood now store d) = Inr (Some al) \<longrightarrow> a_severity al = s)"
      by blast
  qed
  show "\<forall>(b, s)\<in>set [(low (th_windSpeed thresholds), Low), (medium (th_windSpeed thresholds), Medium),
        (high (th_windSpeed thresholds), High), (critical (th_windSpeed thresholds), Critical)].
      windSpeed (sd_readings d) = Some b \<longrightarrow>
        (?valid \<longrightarrow>
           (\<exists>al rest. fst (evaluateWeather now [] d) = al # rest \<and> a_type al \<noteq> Heatwave
              \<and> a_severity al = s))
        \<and> (\<forall>al\<in>set (drop (length store) (fst (evaluateWeather now store d))).
             a_type al \<noteq> Heatwave \<longrightarrow> a_severity al = s)"
  proof (intro ballI, clarify)
    fix b s assume bs: "(b, s) \<in> set [(low (th_windSpeed thresholds), Low),
        (medium (th_windSpeed thresholds), Medium),
        (high (th_windSpeed thresholds), High), (critical (th_windSpeed thresholds), Critical)]"
      and m: "windSpeed (sd_readings d) = Some b"
    from bs have b: "40 \<le> b" and s: "s = (if 150 \<le> b then Critical else if 100 \<le> b then High
             else if 70 \<le> b then Medium else Low)"
      by (auto simp: thresholds_def)
    have "\<exists>al rest. fst (evaluateWeather now [] d) = al # rest \<and> a_type al \<noteq> Heatwave
           \<and> a_severity al = s" if ?valid
    proof -
      from src[OF that] obtain sr where "alertValidation d = Some (nm, sr)" ..
      from evaluateWeather_wind_admit[OF m b this, of "[]" now]
      obtain al rest where "fst (evaluateWeather now [] d) = al # rest"
        "a_type al = (if 100 \<le> b then Cyclone else Storm)" "a_severity al = s"
        unfolding s by auto
      then show ?thesis
        by (intro exI[of _ al] exI[of _ rest]) (simp split: if_splits)
    qed
    moreover from evaluateWeather_wind_created[OF m, of _ store now]
    have "\<forall>al\<in>set (drop (length store) (fst (evaluateWeather now store d))).
             a_type al \<noteq> Heatwave \<longrightarrow> a_severity al = s"
      unfolding s by blast
    ultimately show "(?valid \<longrightarrow>
           (\<exists>al rest. fst (evaluateWeather now [] d) = al # rest \<and> a_type al \<noteq> Heatwave
              \<and> a_severity al = s))
        \<and> (\<forall>al\<in>set (drop (length store) (fst (evaluateWeather now store d))).
             a_type al \<noteq> Heatwave \<longrightarrow> a_severity al = s)"
      by blast
  qed
  show "\<forall>(b, s)\<in>set [(heatwave (th_temperature thresholds), High),
        (extreme (th_temperature thresholds), Critical)].
      temperature (sd_readings d) = Some b \<longrightarrow>
        (?valid \<longrightarrow>
           (\<exists>pre al. evaluateWeather now [] d = (pre @ [al], Inr (Some al)) \<and> a_type al = Heatwave
              \<and> a_severity al = s))
        \<and> (\<forall>al\<in>set (drop (length store) (fst (evaluateWeather now store d))).
             a_type al = Heatwave \<longrightarrow> a_severity al = s)"
  proof (intro ballI, clarify)
    fix b s assume bs: "(b, s) \<in> set [(heatwave (th_temperature thresholds), High),
        (extreme (th_temperature thresholds), Critical)]"
      and m: "temperature (sd_readings d) = Some b"
    from bs have b: "42 \<le> b" and s: "s = (if 45 \<le> b then Critical else High)"
      by (auto simp: thresholds_def)
    have "\<exists>pre al. evaluateWeather now [] d = (pre @ [al], Inr (Some al)) \<and> a_type al = Heatwave
           \<and> a_severity al = s" if ?valid
    proof -
      from src[OF that] obtain sr where "alertValidation d = Some (nm, sr)" ..
      from evaluateWeather_heat_admit[OF m b this, of "[]" now] show ?thesis
        unfolding s by auto
    qed
    moreover from evaluateWeather_heat_created[OF m, of _ store now]
    have "\<forall>al\<in>set (drop (length store) (fst (evaluateWeather now store d))).
             a_type al = Heatwave \<longrightarrow> a_severity al = s"
      unfolding s by blast
    ultimately show "(?valid \<longrightarrow>
           (\<exists>pre al. evaluateWeather now [] d = (pre @ [al], Inr (Some al)) \<and> a_type al = Heatwave
              \<and> a_severity al = s))
        \<and> (\<forall>al\<in>set (drop (length store) (fst (evaluateWeather now store d))).
             a_type al = Heatwave \<longrightarrow> a_severity al = s)"
      by blast
  qed
  show "magnitude (sd_readings d) = None \<longrightarrow> evaluateEarthquake now store d = (store, Inr None)"
    by (simp add: evaluateEarthquake_absent)
  show "waterLevel (sd_readings d) = None \<longrightarrow> evaluateFlood now store d = (store, Inr None)"
    by (simp add: evaluateFlood_absent)
  show "windSpeed (sd_readings d) = None \<longrightarrow>
        (\<forall>al\<in>set (drop (length store) (fst (evaluateWeather now store d))). a_type al = Heatwave)"
    using evaluateWeather_shapes[of now store d]
    by (auto simp: isWindAlert_def dest: isHeatAlert_heat)
  show "temperature (sd_readings d) = None \<longrightarrow>
        (\<forall>al\<in>set (drop (length store) (fst (evaluateWeather now store d))). a_type al \<noteq> Heatwave)"
    using evaluateWeather_shapes[of now store d]
    by (auto simp: isHeatAlert_def dest: isWindAlert_not_heat)
  show "windSpeed (sd_readings d) = None \<and> temperature (sd_readings d) = None \<longrightarrow>
        evaluateWeather now store d = (store, Inr None)"
    by (simp add: evaluateWeather_absent)
qed

theorem tier_boundaries_inclusive_witness:
  "(\<exists>al. evaluateEarthquake 0 [] (exampleSensor SEarthquake (noReadings\<lparr>magnitude := Some 6.0\<rparr>))
        = ([al], Inr (Some al)) \<and> a_severity al = High)
   \<and> (\<exists>al. evaluateEarthquake 0 [] (exampleSensor SEarthquake (noReadings\<lparr>magnitude := Some 7.0\<rparr>))
        = ([al], Inr (Some al)) \<and> a_severity al = Critical)
   \<and> evaluateFlood 0 [] (exampleSensor SEarthquake (noReadings\<lparr>magnitude := Some 6.0\<rparr>)) = ([], Inr None)"
  using tier_boundaries_inclusive[of "exampleSensor SEarthquake (noReadings\<lparr>magnitude := Some 6.0\<rparr>)"
      "''Ganges Basin, India''" 0 "[]"]
    tier_boundaries_inclusive[of "exampleSensor SEarthquake (noReadings\<lparr>magnitude := Some 7.0\<rparr>)"
      "''Ganges Basin, India''" 0 "[]"]
  by (simp add: exampleSensor_def exampleLocation_def noReadings_def thresholds_def)

section \<open>The spatial check of the deduplication\<close>

text \<open>
  C7. The claim that every hazard type is deduplicated by a box of 0.5 degrees around
  the coordinates, whatever the location name, fails for floods: an active flood alert
  of the same location name suppresses the reading although its coordinates are more
  than 25 degrees away, and an active flood alert at the very coordinates of the
  reading but under another name does not suppress it.
\<close>

theorem flood_dedup_by_name_counterexample:
  "evaluateFlood 1000 [exampleAlert Flood Active ''Ganges Basin, India'' 0 0 0]
       (exampleSensor SFlood (noReadings\<lparr>waterLevel := Some 8.5\<rparr>))
     = ([exampleAlert Flood Active ''Ganges Basin, India'' 0 0 0], Inr None)
   \<and> \<not> (latitude exampleLocation - 0.5 \<le> 0 \<and> 0 \<le> latitude exampleLocation + 0.5)
   \<and> length (fst (evaluateFlood 1000 [exampleAlert Flood Active ''Varanasi'' 25.3 82.9 0]
       (exampleSensor SFlood (noReadings\<lparr>waterLevel := Some 8.5\<rparr>)))) = 2"
  by (simp add: evaluateFlood_def alertValidation_def exampleAlert_def exampleSensor_def
      exampleLocation_def noReadings_def thresholds_def Let_def)

text \<open>
  C7, as amended. A reading that reaches the lowest tier is suppressed exactly when
  the collection holds an active alert of its type, from the lookback window of that
  type, that matches it in space; for an earthquake the match is the box of 0.5
  degrees around the coordinates of the reading, whatever the names, and for a flood,
  a storm, a cyclone and a heatwave it is equality of the location names, whatever the
  coordinates.
\<close>

theorem dedup_spatial_checks:
  "(magnitude (sd_readings d) = Some m \<and> 3 \<le> m \<longrightarrow>
      (evaluateEarthquake now store d = (store, Inr None) \<longleftrightarrow>
        (\<exists>a\<in>set store. a_type a = Earthquake \<and> a_status a = Active
          \<and> latitude (sd_location d) - 0.5 \<le> al_latitude (a_location a)
          \<and> al_latitude (a_location a) \<le> latitude (sd_location d) + 0.5
          \<and> longitude (sd_location d) - 0.5 \<le> al_longitude (a_location a)
          \<and> al_longitude (a_location a) \<le> longitude (sd_location d) + 0.5
          \<and> now - 60 * 60 * 1000 \<le> a_createdAt a)))
   \<and> (waterLevel (sd_readings d) = Some w \<and> 3 \<le> w \<longrightarrow>
      (evaluateFlood now store d = (store, Inr None) \<longleftrightarrow>
        (\<exists>a\<in>set store. a_type a = Flood \<and> a_status a = Active
          \<and> name (sd_location d) = Some (al_name (a_location a))
          \<and> now - 3 * 60 * 60 * 1000 \<le> a_createdAt a)))
   \<and> (windSpeed (sd_readings d) = Some v \<and> 40 \<le> v \<longrightarrow>
      (checkStorm now d (store, r) = (store, Inr r) \<longleftrightarrow>
        (\<exists>a\<in>set store. a_type a = (if 100 \<le> v then Cyclone else Storm) \<and> a_status a = Active
          \<and> name (sd_location d) = Some (al_name (a_location a))
          \<and> now - 2 * 60 * 60 * 1000 \<le> a_createdAt a)))
   \<and> (temperature (sd_readings d) = Some tp \<and> 42 \<le> tp \<longrightarrow>
      (checkHeatwave now d (store, r) = (store, Inr r) \<longleftrightarrow>
        (\<exists>a\<in>set store. a_type a = Heatwave \<and> a_status a = Active
          \<and> name (sd_location d) = Some (al_name (a_location a))
          \<and> now - 6 * 60 * 60 * 1000 \<le> a_createdAt a)))"
proof (intro conjI impI)
  assume h: "magnitude (sd_readings d) = Some m \<and> 3 \<le> m"
  let ?S = "\<exists>a\<in>set store. a_type a = Earthquake \<and> a_status a = Active
          \<and> latitude (sd_location d) - 0.5 \<le> al_latitude (a_location a)
          \<and> al_latitude (a_location a) \<le> latitude (sd_location d) + 0.5
          \<and> longitude (sd_location d) - 0.5 \<le> al_longitude (a_location a)
          \<and> al_longitude (a_location a) \<le> longitude (sd_location d) + 0.5
          \<and> now - 60 * 60 * 1000 \<le> a_createdAt a"
  show "evaluateEarthquake now store d = (store, Inr None) \<longleftrightarrow> ?S"
  proof
    assume eq: "evaluateEarthquake now store d = (store, Inr None)"
    show ?S
    proof (rule ccontr)
      assume "\<not> ?S"
      then have fresh: "\<forall>a\<in>set store. \<not> (a_type a = Earthquake \<and> a_status a = Active
          \<and> latitude (sd_location d) - 0.5 \<le> al_latitude (a_location a)
          \<and> al_latitude (a_location a) \<le> latitude (sd_location d) + 0.5
          \<and> longitude (sd_location d) - 0.5 \<le> al_longitude (a_location a)
          \<and> al_longitude (a_location a) \<le> longitude (sd_location d) + 0.5
          \<and> now - 60 * 60 * 1000 \<le> a_createdAt a)" by blast
      show False
      proof (cases "alertValidation d")
        case None
        from evaluateEarthquake_invalid[OF _ _ None fresh, of m] h eq show False by simp
      next
        case (Some p)
        obtain nm src where "p = (nm, src)" by (cases p)
        with Some have "alertValidation d = Some (nm, src)" by simp
        from evaluateEarthquake_admit[OF _ _ this fresh, of m] h eq show False by auto
      qed
    qed
  next
    assume ?S
    then show "evaluateEarthquake now store d = (store, Inr None)"
      using evaluateEarthquake_suppress by blast
  qed
next
  assume h: "waterLevel (sd_readings d) = Some w \<and> 3 \<le> w"
  let ?S = "\<exists>a\<in>set store. a_type a = Flood \<and> a_status a = Active
          \<and> name (sd_location d) = Some (al_name (a_location a))
          \<and> now - 3 * 60 * 60 * 1000 \<le> a_createdAt a"
  show "evaluateFlood now store d = (store, Inr None) \<longleftrightarrow> ?S"
  proof
    assume eq: "evaluateFlood now store d = (store, Inr None)"
    show ?S
    proof (rule ccontr)
      assume "\<not> ?S"
      then have fresh: "\<forall>a\<in>set store. \<not> (a_type a = Flood \<and> a_status a = Active
          \<and> name (sd_location d) = Some (al_name (a_location a))
          \<and> now - 3 * 60 * 60 * 1000 \<le> a_createdAt a)" by blast
      show False
      proof (cases "alertValidation d")
        case None
        from evaluateFlood_invalid[OF _ _ None fresh, of w] h eq show False by simp
      next
        case (Some p)
        obtain nm src where "p = (nm, src)" by (cases p)
        with Some have "alertValidation d = Some (nm, src)" by simp
        from evaluateFlood_admit[OF _ _ this fresh, of w] h eq show False by auto
      qed
    qed
  next
    assume ?S
    then show "evaluateFlood now store d = (store, Inr None)"
      using evaluateFlood_suppress by blast
  qed
next
  assume h: "windSpeed (sd_readings d) = Some v \<and> 40 \<le> v"
  let ?S = "\<exists>a\<in>set store. a_type a = (if 100 \<le> v then Cyclone else Storm) \<and> a_status a = Active
          \<and> name (sd_location d) = Some (al_name (a_location a))
          \<and> now - 2 * 60 * 60 * 1000 \<le> a_createdAt a"
  show "checkStorm now d (store, r) = (store, Inr r) \<longleftrightarrow> ?S"
  proof
    assume eq: "checkStorm now d (store, r) = (store, Inr r)"
    show ?S
    proof (rule ccontr)
      assume "\<not> ?S"
      then have fresh: "\<forall>a\<in>set store. \<not> (a_type a = (if 100 \<le> v then Cyclone else Storm) \<and> a_status a = Active
          \<and> name (sd_location d) = Some (al_name (a_location a))
          \<and> now - 2 * 60 * 60 * 1000 \<le> a_createdAt a)" by blast
      show False
      proof (cases "alertValidation d")
        case None
        from checkStorm_invalid[OF _ _ None fresh, of r] h eq show False by simp
      next
        case (Some p)
        obtain nm src where "p = (nm, src)" by (cases p)
        with Some have "alertValidation d = Some (nm, src)" by simp
        from checkStorm_admit[OF _ _ this fresh, of r] h eq show False by auto
      qed
    qed
  next
    assume ?S
    then show "checkStorm now d (store, r) = (store, Inr r)"
      using checkStorm_suppress h by blast
  qed
next
  assume h: "temperature (sd_readings d) = Some tp \<and> 42 \<le> tp"
  let ?S = "\<exists>a\<in>set store. a_type a = Heatwave \<and> a_status a = Active
          \<and> name (sd_location d) = Some (al_name (a_location a))
          \<and> now - 6 * 60 * 60 * 1000 \<le> a_createdAt a"
  show "checkHeatwave now d (store, r) = (store, Inr r) \<longleftrightarrow> ?S"
  proof
    assume eq: "checkHeatwave now d (store, r) = (store, Inr r)"
    show ?S
    proof (rule ccontr)
      assume "\<not> ?S"
      then have fresh: "\<forall>a\<in>set store. \<not> (a_type a = Heatwave \<and> a_status a = Active
          \<and> name (sd_location d) = Some (al_name (a_location a))
          \<and> now - 6 * 60 * 60 * 1000 \<le> a_createdAt a)" by blast
      show False
      proof (cases "alertValidation d")
        case None
        from checkHeatwave_invalid[OF _ _ None fresh, of tp r] h eq show False by simp
      next
        case (Some p)
        obtain nm src where "p = (nm, src)" by (cases p)
        with Some have "alertValidation d = Some (nm, src)" by simp
        from checkHeatwave_admit[OF _ _ this fresh, of tp r] h eq show False by auto
      qed
    qed
  next
    assume ?S
    then show "checkHeatwave now d (store, r) = (store, Inr r)"
      using checkHeatwave_suppress by blast
  qed
qed

theorem dedup_spatial_checks_witness:
  "evaluateEarthquake 1000 [exampleAlert Earthquake Active ''Elsewhere'' 25.0 83.2 0]
       (exampleSensor SEarthquake (noReadings\<lparr>magnitude := Some 6.2\<rparr>))
     = ([exampleAlert Earthquake Active ''Elsewhere'' 25.0 83.2 0], Inr None)
   \<and> evaluateFlood 1000 [exampleAlert Flood Active ''Ganges Basin, India'' 0 0 0]
       (exampleSensor SFlood (noReadings\<lparr>waterLevel := Some 8.5\<rparr>))
     = ([exampleAlert Flood Active ''Ganges Basin, India'' 0 0 0], Inr None)"
  using dedup_spatial_checks[of "exampleSensor SEarthquake (noReadings\<lparr>magnitude := Some 6.2\<rparr>)"
      "6.2" 1000 "[exampleAlert Earthquake Active ''Elsewhere'' 25.0 83.2 0]"]
    dedup_spatial_checks[of "exampleSensor SFlood (noReadings\<lparr>waterLevel := Some 8.5\<rparr>)"
      _ 1000 "[exampleAlert Flood Active ''Ganges Basin, India'' 0 0 0]" "8.5"]
  by (simp add: exampleAlert_def exampleSensor_def exampleLocation_def noReadings_def)

section \<open>Delivery of new alerts\<close>

lemma AS_broadcastAlert_recipients:
  "map fst (AS_broadcastAlert (Some io) al) = map s_id io"
  by (simp add: AS_broadcastAlert_def emit_def comp_def)

lemma onSubscribe_ids: "map s_id (ws_io (onSubscribe sid types ws)) = map s_id (ws_io ws)"
  by (simp add: onSubscribe_def comp_def split: option.split)

text \<open>
  C2. The claim that a client whose subscriptions do not include the type of the alert
  does not receive it fails: a client that subscribed to \<^verbatim>\<open>flood\<close> only receives
  the \<^verbatim>\<open>new-alert\<close> event of an earthquake alert, from \<^verbatim>\<open>_broadcastAlert\<close> of
  AlertService and from \<^verbatim>\<open>broadcastAlert\<close> of WebSocketService alike.
\<close>

theorem broadcast_ignores_subscriptions_counterexample:
  "map_option subscriptions
      (map_of (connectedClients (onSubscribe ''s1'' [''flood''] (onConnection 0 ''s1'' wsInit))) ''s1'')
     = Some [''flood'']
   \<and> typeName (a_type (exampleAlert Earthquake Active ''Kathmandu'' 27.7 85.3 0)) \<notin> set [''flood'']
   \<and> map fst (AS_broadcastAlert
        (Some (ws_io (onSubscribe ''s1'' [''flood''] (onConnection 0 ''s1'' wsInit))))
        (exampleAlert Earthquake Active ''Kathmandu'' 27.7 85.3 0)) = [''s1'']
   \<and> map fst (WS_broadcastAlert (onSubscribe ''s1'' [''flood''] (onConnection 0 ''s1'' wsInit))
        (exampleAlert Earthquake Active ''Kathmandu'' 27.7 85.3 0)) = [''s1'']"
  by (simp add: onSubscribe_def onConnection_def wsInit_def AS_broadcastAlert_def
      WS_broadcastAlert_def emit_def exampleAlert_def)

text \<open>
  C2, as amended. A new alert is pushed once to every connected socket, as a
  \<^verbatim>\<open>new-alert\<close> event, whatever the subscriptions: a \<^verbatim>\<open>subscribe\<close> event changes
  nothing in who receives it. Only \<^verbatim>\<open>sendTypeAlert\<close> restricts the delivery, to the
  sockets that joined the room of the type.
\<close>

theorem broadcast_reaches_every_socket:
  "map fst (AS_broadcastAlert (Some io) al) = map s_id io
   \<and> (\<forall>dlv\<in>set (AS_broadcastAlert (Some io) al). fst (snd dlv) = ''new-alert'')
   \<and> map fst (AS_broadcastAlert (Some (ws_io (onSubscribe sid types ws))) al)
       = map fst (AS_broadcastAlert (Some (ws_io ws)) al)
   \<and> map fst (WS_broadcastAlert ws p) = map s_id (ws_io ws)
   \<and> map fst (WS_broadcastAlert (onSubscribe sid types ws) p) = map fst (WS_broadcastAlert ws p)
   \<and> map fst (sendTypeAlert ws ty p) = map s_id (filter (\<lambda>s. ty \<in> s_rooms s) (ws_io ws))"
proof (intro conjI)
  show "map fst (AS_broadcastAlert (Some io) al) = map s_id io"
    by (rule AS_broadcastAlert_recipients)
  show "\<forall>dlv\<in>set (AS_broadcastAlert (Some io) al). fst (snd dlv) = ''new-alert''"
    by (auto simp: AS_broadcastAlert_def emit_def)
  show "map fst (AS_broadcastAlert (Some (ws_io (onSubscribe sid types ws))) al)
       = map fst (AS_broadcastAlert (Some (ws_io ws)) al)"
    by (simp only: AS_broadcastAlert_recipients onSubscribe_ids)
  show ws: "map fst (WS_broadcastAlert ws p) = map s_id (ws_io ws)" for ws :: ws_service
    by (simp add: WS_broadcastAlert_def emit_def comp_def)
  show "map fst (WS_broadcastAlert (onSubscribe sid types ws) p) = map fst (WS_broadcastAlert ws p)"
    by (simp only: ws onSubscribe_ids)
  show "map fst (sendTypeAlert ws ty p) = map s_id (filter (\<lambda>s. ty \<in> s_rooms s) (ws_io ws))"
    by (simp add: sendTypeAlert_def emitTo_def comp_def)
qed

theorem broadcast_reaches_every_socket_witness:
  "map fst (AS_broadcastAlert
        (Some (ws_io (onSubscribe ''s1'' [''flood''] (onConnection 0 ''s1'' wsInit))))
        (exampleAlert Earthquake Active ''Kathmandu'' 27.7 85.3 0)) = [''s1'']
   \<and> map fst (sendTypeAlert (onSubscribe ''s1'' [''flood''] (onConnection 0 ''s1'' wsInit))
        ''earthquake'' (exampleAlert Earthquake Active ''Kathmandu'' 27.7 85.3 0)) = []"
  using broadcast_reaches_every_socket[of
      "ws_io (onSubscribe ''s1'' [''flood''] (onConnection 0 ''s1'' wsInit))"
      "exampleAlert Earthquake Active ''Kathmandu'' 27.7 85.3 0" "''s1''" "[''flood'']"
      "onSubscribe ''s1'' [''flood''] (onConnection 0 ''s1'' wsInit)"
      "exampleAlert Earthquake Active ''Kathmandu'' 27.7 85.3 0" "''earthquake''"]
  by (simp add: onSubscribe_def onConnection_def wsInit_def)

section \<open>Payload of the new-alert event\<close>

lemma evaluateAlerts_deliveries:
  "snd (snd (evaluateAlerts now io sensorDB store))
     = concat (map (AS_broadcastAlert io) (fst (snd (evaluateAlerts now io sensorDB store))))"
  by (simp add: evaluateAlerts_def Let_def split: prod.split sum.split)

text \<open>
  C10. Every event that \<^verbatim>\<open>evaluateAlerts\<close> pushes is a \<^verbatim>\<open>new-alert\<close> event whose
  payload has exactly the keys id, title, type, severity, description, location and
  createdAt, with the values of one of the alerts returned, the location being the
  name, latitude, longitude and radius of that alert and nothing else;
  recommendations, data, status, source and expiresAt are not among its keys.
\<close>

theorem new_alert_payload_projection:
  "\<forall>dlv\<in>set (snd (snd (evaluateAlerts now io sensorDB store))).
     fst (snd dlv) = ''new-alert''
     \<and> map fst (snd (snd dlv)) =
         [''id'', ''title'', ''type'', ''severity'', ''description'', ''location'', ''createdAt'']
     \<and> ''recommendations'' \<notin> fst ` set (snd (snd dlv))
     \<and> ''data'' \<notin> fst ` set (snd (snd dlv))
     \<and> ''status'' \<notin> fst ` set (snd (snd dlv))
     \<and> ''source'' \<notin> fst ` set (snd (snd dlv))
     \<and> ''expiresAt'' \<notin> fst ` set (snd (snd dlv))
     \<and> (\<exists>al\<in>set (fst (snd (evaluateAlerts now io sensorDB store))).
           map_of (snd (snd dlv)) ''id'' = Some (JId (a_id al))
         \<and> map_of (snd (snd dlv)) ''title'' = Some (JStr (a_title al))
         \<and> map_of (snd (snd dlv)) ''type'' = Some (JStr (typeName (a_type al)))
         \<and> map_of (snd (snd dlv)) ''severity'' = Some (JStr (severityName (a_severity al)))
         \<and> map_of (snd (snd dlv)) ''description'' = Some (JStr (a_description al))
         \<and> map_of (snd (snd dlv)) ''location'' =
             Some (JObj [(''name'', JStr (al_name (a_location al))),
                         (''latitude'', JNum (al_latitude (a_location al))),
                         (''longitude'', JNum (al_longitude (a_location al))),
                         (''radius'', JNum (al_radius (a_location al)))])
         \<and> map_of (snd (snd dlv)) ''createdAt'' = Some (JDate (a_createdAt al)))"
proof
  fix dlv
  assume "dlv \<in> set (snd (snd (evaluateAlerts now io sensorDB store)))"
  then obtain al where al: "al \<in> set (fst (snd (evaluateAlerts now io sensorDB store)))"
    and dlv: "dlv \<in> set (AS_broadcastAlert io al)"
    unfolding evaluateAlerts_deliveries by auto
  from dlv obtain srv s where "io = Some srv" "s \<in> set srv"
    and d: "dlv = (s_id s, ''new-alert'',
            [(''id'', JId (a_id al)),
             (''title'', JStr (a_title al)),
             (''type'', JStr (typeName (a_type al))),
             (''severity'', JStr (severityName (a_severity al))),
             (''description'', JStr (a_description al)),
             (''location'', JObj [(''name'', JStr (al_name (a_location al))),
                                  (''latitude'', JNum (al_latitude (a_location al))),
                                  (''longitude'', JNum (al_longitude (a_location al))),
                                  (''radius'', JNum (al_radius (a_location al)))]),
             (''createdAt'', JDate (a_createdAt al))])"
    by (auto simp: AS_broadcastAlert_def emit_def split: option.splits)
  show "fst (snd dlv) = ''new-alert''
     \<and> map fst (snd (snd dlv)) =
         [''id'', ''title'', ''type'', ''severity'', ''description'', ''location'', ''createdAt'']
     \<and> ''recommendations'' \<notin> fst ` set (snd (snd dlv))
     \<and> ''data'' \<notin> fst ` set (snd (snd dlv))
     \<and> ''status'' \<notin> fst ` set (snd (snd dlv))
     \<and> ''source'' \<notin> fst ` set (snd (snd dlv))
     \<and> ''expiresAt'' \<notin> fst ` set (snd (snd dlv))
     \<and> (\<exists>al\<in>set (fst (snd (evaluateAlerts now io sensorDB store))).
           map_of (snd (snd dlv)) ''id'' = Some (JId (a_id al))
         \<and> map_of (snd (snd dlv)) ''title'' = Some (JStr (a_title al))
         \<and> map_of (snd (snd dlv)) ''type'' = Some (JStr (typeName (a_type al)))
         \<and> map_of (snd (snd dlv)) ''severity'' = Some (JStr (severityName (a_severity al)))
         \<and> map_of (snd (snd dlv)) ''description'' = Some (JStr (a_description al))
         \<and> map_of (snd (snd dlv)) ''location'' =
             Some (JObj [(''name'', JStr (al_name (a_location al))),
                         (''latitude'', JNum (al_latitude (a_location al))),
                         (''longitude'', JNum (al_longitude (a_location al))),
                         (''radius'', JNum (al_radius (a_location al)))])
         \<and> map_of (snd (snd dlv)) ''createdAt'' = Some (JDate (a_createdAt al)))"
    unfolding d using al by (intro conjI bexI[of _ al]) simp_all
qed

lemma example_deliveries:
  "map fst (snd (snd (evaluateAlerts 1000 (Some [\<lparr> s_id = ''s1'', s_rooms = {''s1''} \<rparr>])
       [exampleSensor SFlood (noReadings\<lparr>waterLevel := Some 8.5\<rparr>)] []))) = [''s1'']
   \<and> map a_location (fst (snd (evaluateAlerts 1000 (Some [\<lparr> s_id = ''s1'', s_rooms = {''s1''} \<rparr>])
       [exampleSensor SFlood (noReadings\<lparr>waterLevel := Some 8.5\<rparr>)] [])))
      = [\<lparr> al_name = ''Ganges Basin, India'', al_latitude = 25.3, al_longitude = 82.9,
           al_radius = 75 \<rparr>]"
  by (simp add: evaluateAlerts_def evaluateDataPoint_def evaluateFlood_def alertValidation_def
      exampleSensor_def exampleLocation_def noReadings_def thresholds_def AS_broadcastAlert_def
      emit_def Let_def)

theorem new_alert_payload_projection_witness:
  "\<exists>dlv. dlv \<in> set (snd (snd (evaluateAlerts 1000 (Some [\<lparr> s_id = ''s1'', s_rooms = {''s1''} \<rparr>])
       [exampleSensor SFlood (noReadings\<lparr>waterLevel := Some 8.5\<rparr>)] [])))
     \<and> fst dlv = ''s1'' \<and> fst (snd dlv) = ''new-alert''
     \<and> map fst (snd (snd dlv)) =
         [''id'', ''title'', ''type'', ''severity'', ''description'', ''location'', ''createdAt'']
     \<and> ''recommendations'' \<notin> fst ` set (snd (snd dlv))
     \<and> map_of (snd (snd dlv)) ''location'' =
         Some (JObj [(''name'', JStr ''Ganges Basin, India''), (''latitude'', JNum 25.3),
                     (''longitude'', JNum 82.9), (''radius'', JNum 75)])"
proof -
  let ?r = "evaluateAlerts 1000 (Some [\<lparr> s_id = ''s1'', s_rooms = {''s1''} \<rparr>])
       [exampleSensor SFlood (noReadings\<lparr>waterLevel := Some 8.5\<rparr>)] []"
  from example_deliveries obtain dlv where ds: "snd (snd ?r) = [dlv]" and sid: "fst dlv = ''s1''"
    by (cases "snd (snd ?r)") auto
  from example_deliveries obtain al where als: "fst (snd ?r) = [al]"
    and loc: "a_location al = \<lparr> al_name = ''Ganges Basin, India'', al_latitude = 25.3,
      al_longitude = 82.9, al_radius = 75 \<rparr>"
    by (cases "fst (snd ?r)") auto
  from ds have "dlv \<in> set (snd (snd ?r))" by simp
  with new_alert_payload_projection[of 1000 "Some [\<lparr> s_id = ''s1'', s_rooms = {''s1''} \<rparr>]"
      "[exampleSensor SFlood (noReadings\<lparr>waterLevel := Some 8.5\<rparr>)]" "[]"]
  have "fst (snd dlv) = ''new-alert''
     \<and> map fst (snd (snd dlv)) =
         [''id'', ''title'', ''type'', ''severity'', ''description'', ''location'', ''createdAt'']
     \<and> ''recommendations'' \<notin> fst ` set (snd (snd dlv))
     \<and> (\<exists>al\<in>set (fst (snd ?r)).
          map_of (snd (snd dlv)) ''location'' =
             Some (JObj [(''name'', JStr (al_name (a_location al))),
                         (''latitude'', JNum (al_latitude (a_location al))),
                         (''longitude'', JNum (al_longitude (a_location al))),
                         (''radius'', JNum (al_radius (a_location al)))]))"
    by blast
  with als loc sid \<open>dlv \<in> set (snd (snd ?r))\<close> show ?thesis
    by (intro exI[of _ dlv]) simp
qed

section \<open>Status updates\<close>

lemma statusOfName_statusName: "statusOfName (statusName st) = Some st"
  by (cases st) (simp_all add: statusOfName_def)

lemma replaceFirst_length: "length (replaceFirst P y xs) = length xs"
  by (induction xs) auto

lemma replaceFirst_mem: "find P xs = Some x \<Longrightarrow> y \<in> set (replaceFirst P y xs)"
  by (induction xs) (auto split: if_splits)

text \<open>
  C8. The claim that no operation moves the status of an alert backwards fails: a
  PATCH request with the status \<^verbatim>\<open>active\<close> on a resolved alert makes it active again.
\<close>

theorem status_reactivation_counterexample:
  "a_status (exampleAlert Flood Resolved ''Ganges Basin, India'' 25.3 82.9 0) = Resolved
   \<and> map a_status (fst (patchAlert 5 None [exampleAlert Flood Resolved ''Ganges Basin, India'' 25.3 82.9 0] 0
        \<lparr> b_status = Some ''active'', b_severity = None, b_description = None,
          b_recommendations = None \<rparr>)) = [Active]"
  by (simp add: patchAlert_def validUpdates_def applyUpdates_def statusOfName_def
      exampleAlert_def Let_def)

text \<open>
  C8, as amended. A PATCH request that passes validation on an alert that exists
  answers with the updated alert, which replaces the old one in the collection; its
  status is the one the request names, whatever the status was, and the old one when
  the request names none. A request that fails validation (a status or severity
  outside the enumeration) answers 400, one for an unknown id answers 404, and both
  leave the collection as it is. The evaluation of a reading never changes an
  alert that exists: the collection it returns starts with the old one.
\<close>

theorem status_update_sets_requested_status:
  "(find (\<lambda>a. a_id a = ident) store = Some old \<and> validUpdates body \<longrightarrow>
      (\<exists>al. fst (snd (patchAlert now io store ident body)) = Inr al
         \<and> al \<in> set (fst (patchAlert now io store ident body))
         \<and> length (fst (patchAlert now io store ident body)) = length store
         \<and> a_id al = a_id old
         \<and> (\<forall>st. b_status body = Some (statusName st) \<longrightarrow> a_status al = st)
         \<and> (b_status body = None \<longrightarrow> a_status al = a_status old)))
   \<and> (\<not> validUpdates body \<longrightarrow>
        patchAlert now io store ident body = (store, Inl BadRequest, []))
   \<and> (validUpdates body \<and> find (\<lambda>a. a_id a = ident) store = None \<longrightarrow>
        patchAlert now io store ident body = (store, Inl NotFound, []))
   \<and> take (length store) (fst (evaluateDataPoint now store d)) = store"
proof (intro conjI impI)
  assume h: "find (\<lambda>a. a_id a = ident) store = Some old \<and> validUpdates body"
  let ?al = "applyUpdates now body old"
  from h have res: "patchAlert now io store ident body =
      (replaceFirst (\<lambda>a. a_id a = ident) ?al store, Inr ?al,
       (case io of None \<Rightarrow> [] | Some srv \<Rightarrow> emit srv ''alert-updated'' ?al))"
    by (simp add: patchAlert_def Let_def)
  have ident: "a_id ?al = a_id old"
    by (simp add: applyUpdates_def Let_def split: option.splits)
  have set: "\<forall>st. b_status body = Some (statusName st) \<longrightarrow> a_status ?al = st"
    by (auto simp: applyUpdates_def Let_def statusOfName_statusName split: option.splits)
  have keep: "b_status body = None \<longrightarrow> a_status ?al = a_status old"
    by (simp add: applyUpdates_def Let_def split: option.splits)
  from h have mem: "?al \<in> set (replaceFirst (\<lambda>a. a_id a = ident) ?al store)"
    by (intro replaceFirst_mem[of _ _ old]) simp
  show "\<exists>al. fst (snd (patchAlert now io store ident body)) = Inr al
         \<and> al \<in> set (fst (patchAlert now io store ident body))
         \<and> length (fst (patchAlert now io store ident body)) = length store
         \<and> a_id al = a_id old
         \<and> (\<forall>st. b_status body = Some (statusName st) \<longrightarrow> a_status al = st)
         \<and> (b_status body = None \<longrightarrow> a_status al = a_status old)"
    using ident set keep mem
    by (intro exI[of _ ?al]) (simp add: res replaceFirst_length)
next
  assume "\<not> validUpdates body"
  then show "patchAlert now io store ident body = (store, Inl BadRequest, [])"
    by (simp add: patchAlert_def)
next
  assume "validUpdates body \<and> find (\<lambda>a. a_id a = ident) store = None"
  then show "patchAlert now io store ident body = (store, Inl NotFound, [])"
    by (simp add: patchAlert_def)
next
  show "take (length store) (fst (evaluateDataPoint now store d)) = store"
    by (rule evaluateDataPoint_prefix)
qed

theorem status_update_sets_requested_status_witness:
  "\<exists>al. fst (snd (patchAlert 5 None [exampleAlert Flood Expired ''Ganges Basin, India'' 25.3 82.9 0] 0
        \<lparr> b_status = Some ''monitoring'', b_severity = None, b_description = None,
          b_recommendations = None \<rparr>)) = Inr al
     \<and> a_status al = Monitoring"
  using status_update_sets_requested_status[of 0
      "[exampleAlert Flood Expired ''Ganges Basin, India'' 25.3 82.9 0]"
      "exampleAlert Flood Expired ''Ganges Basin, India'' 25.3 82.9 0"
      "\<lparr> b_status = Some ''monitoring'', b_severity = None, b_description = None,
          b_recommendations = None \<rparr>" 5 None]
  by (simp add: validUpdates_def statusOfName_def exampleAlert_def) (metis statusName.simps(2))

section \<open>Fallback of the collectors\<close>

lemma simWeatherLoop_locations:
  "map sd_location (simWeatherLoop rnd k ls)
     = map (\<lambda>l. \<lparr> name = Some (p_name l), latitude = lat l, longitude = lon l \<rparr>) ls"
  by (induction ls arbitrary: k) (simp_all add: Let_def)

lemma simFloodLoop_locations:
  "map sd_location (simFloodLoop rnd k ls)
     = map (\<lambda>l. \<lparr> name = Some (p_name l), latitude = lat l, longitude = lon l \<rparr>) ls"
  by (induction ls arbitrary: k) (simp_all add: Let_def)

lemma length_zones: "length zones = 5"
  by (simp add: zones_def)

lemma simQuakeLoop_ok:
  assumes "\<forall>i. 0 \<le> rnd i \<and> rnd i < 1"
  shows "\<exists>batch. simQuakeLoop rnd k n = Inr batch \<and> length batch = n
    \<and> (\<forall>sd\<in>set batch. \<exists>z\<in>set zones. name (sd_location sd) = Some (''Near '' @ p_name z))"
proof (induction n arbitrary: k)
  case 0
  show ?case by simp
next
  case (Suc n)
  from assms have r: "0 \<le> rnd k" "rnd k < 1" by auto
  let ?i = "\<lfloor>rnd k * real (length zones)\<rfloor>"
  from r have lo: "0 \<le> ?i" by (simp add: length_zones)
  from r have hi: "?i < int (length zones)" by (simp add: length_zones floor_less_iff)
  from lo hi have mem: "zones ! nat ?i \<in> set zones" by (intro nth_mem) linarith
  from Suc[of "k + 5"] obtain batch where b: "simQuakeLoop rnd (k + 5) n = Inr batch"
    "length batch = n"
    "\<forall>sd\<in>set batch. \<exists>z\<in>set zones. name (sd_location sd) = Some (''Near '' @ p_name z)"
    by blast
  from lo hi b mem show ?case
    by (simp add: Let_def not_le not_less) blast
qed

lemma numEvents_range:
  assumes "0 \<le> r" "r < 1"
  shows "2 \<le> nat \<lfloor>2 + r * 5\<rfloor> \<and> nat \<lfloor>2 + r * 5\<rfloor> \<le> 6"
proof -
  from assms have "2 \<le> \<lfloor>2 + r * 5\<rfloor>" by (simp add: le_floor_iff)
  moreover from assms have "\<lfloor>2 + r * 5\<rfloor> < 7" by (simp add: floor_less_iff)
  ultimately show ?thesis by linarith
qed

text \<open>
  C9. The claim that every collect operation answers an unavailable upstream with a
  non-empty synthetic batch fails for \<^verbatim>\<open>collectWeatherData\<close>: with an API key
  configured and every request failing, the batch it returns is empty.
\<close>

theorem weather_request_failure_counterexample:
  "snd (collectWeatherData ''a-configured-key'' (\<lambda>l. Inl RequestFailed) (\<lambda>i. 0) 0 []) = []"
  by (simp add: collectWeatherData_def monitoredLocations_def)

text \<open>
  C9, as amended. Without an API key (or with the placeholder key)
  \<^verbatim>\<open>collectWeatherData\<close> returns ten simulated readings, one for each monitored
  location in the order of the list, whatever the random draws. When the USGS request
  throws, \<^verbatim>\<open>collectEarthquakeData\<close> returns, and does not throw, between two and
  six simulated readings, each near one of the five fixed zones (the random draws lie
  in the unit interval, as \<^verbatim>\<open>Math.random()\<close> promises). \<^verbatim>\<open>collectFloodData\<close>
  always returns five simulated readings, one for each flood-prone area.
\<close>

theorem collectors_fall_back_to_simulated_data:
  "((openWeatherKey = [] \<or> openWeatherKey = ''your_openweather_api_key_here'') \<longrightarrow>
      length (snd (collectWeatherData openWeatherKey owm rnd now db)) = 10
      \<and> map sd_location (snd (collectWeatherData openWeatherKey owm rnd now db))
          = map (\<lambda>l. \<lparr> name = Some (p_name l), latitude = lat l, longitude = lon l \<rparr>) monitoredLocations)
   \<and> ((\<forall>i. 0 \<le> rnd i \<and> rnd i < 1) \<longrightarrow>
      (\<exists>batch. snd (collectEarthquakeData (Inl e) rnd now db) = Inr batch
         \<and> 2 \<le> length batch \<and> length batch \<le> 6
         \<and> (\<forall>sd\<in>set batch. \<exists>z\<in>set zones. name (sd_location sd) = Some (''Near '' @ p_name z))))
   \<and> length (collectFloodData rnd) = 5
   \<and> map sd_location (collectFloodData rnd)
       = map (\<lambda>l. \<lparr> name = Some (p_name l), latitude = lat l, longitude = lon l \<rparr>) floodProne"
proof (intro conjI impI)
  assume key: "openWeatherKey = [] \<or> openWeatherKey = ''your_openweather_api_key_here''"
  then have res: "snd (collectWeatherData openWeatherKey owm rnd now db)
      = simWeatherLoop rnd 0 monitoredLocations"
    by (auto simp: collectWeatherData_def generateSimulatedWeatherData_def)
  show loc: "map sd_location (snd (collectWeatherData openWeatherKey owm rnd now db))
          = map (\<lambda>l. \<lparr> name = Some (p_name l), latitude = lat l, longitude = lon l \<rparr>) monitoredLocations"
    unfolding res by (rule simWeatherLoop_locations)
  have "length (map sd_location (snd (collectWeatherData openWeatherKey owm rnd now db))) = 10"
    unfolding loc by (simp add: monitoredLocations_def)
  then show "length (snd (collectWeatherData openWeatherKey owm rnd now db)) = 10"
    by simp
next
  assume rnd: "\<forall>i. 0 \<le> rnd i \<and> rnd i < 1"
  let ?n = "nat \<lfloor>2 + rnd 0 * 5\<rfloor>"
  from simQuakeLoop_ok[OF rnd, of 1 ?n] obtain batch where
    b: "simQuakeLoop rnd 1 ?n = Inr batch" "length batch = ?n"
    "\<forall>sd\<in>set batch. \<exists>z\<in>set zones. name (sd_location sd) = Some (''Near '' @ p_name z)"
    by blast
  from rnd have "2 \<le> ?n \<and> ?n \<le> 6" by (intro numEvents_range) auto
  with b show "\<exists>batch. snd (collectEarthquakeData (Inl e) rnd now db) = Inr batch
         \<and> 2 \<le> length batch \<and> length batch \<le> 6
         \<and> (\<forall>sd\<in>set batch. \<exists>z\<in>set zones. name (sd_location sd) = Some (''Near '' @ p_name z))"
    by (intro exI[of _ batch])
       (simp add: collectEarthquakeData_def generateSimulatedEarthquakeData_def Let_def)
next
  show loc: "map sd_location (collectFloodData rnd)
       = map (\<lambda>l. \<lparr> name = Some (p_name l), latitude = lat l, longitude = lon l \<rparr>) floodProne"
    by (simp add: collectFloodData_def generateSimulatedFloodData_def simFloodLoop_locations)
  have "length (map sd_location (collectFloodData rnd)) = 5"
    unfolding loc by (simp add: floodProne_def)
  then show "length (collectFloodData rnd) = 5" by simp
qed

theorem collectors_fall_back_to_simulated_data_witness:
  "length (snd (collectWeatherData [] (\<lambda>l. Inl RequestFailed) (\<lambda>i. 1 / 2) 0 [])) = 10
   \<and> (\<exists>batch. snd (collectEarthquakeData (Inl RequestFailed) (\<lambda>i. 1 / 2) 0 []) = Inr batch
         \<and> 2 \<le> length batch \<and> length batch \<le> 6)"
  using collectors_fall_back_to_simulated_data[of "[]" "\<lambda>l. Inl RequestFailed" "\<lambda>i. 1 / 2" 0 "[]"
      RequestFailed]
  by simp blast

end
